theory Spec2Isabelle
  imports Complex_Main "HOL-Library.AList" "HOL-Library.Sublist" "HOL-Library.Multiset"
begin

section \<open>Python strings\<close>

text \<open>
  A Python \<open>str\<close> is modelled as a \<open>string\<close>, a list of 8-bit characters read as the code
  points 0..255 (ASCII and Latin-1). \<open>str.lower\<close> is closed on that range: it maps A-Z and the
  Latin-1 capitals (0xC0..0xDE without the multiplication sign 0xD7) 32 places up and leaves
  every other character alone.
\<close>

definition py_lower_char :: "char \<Rightarrow> char" where
  "py_lower_char c =
     (let n = (of_char c :: nat)
      in if (65 \<le> n \<and> n \<le> 90) \<or> (192 \<le> n \<and> n \<le> 222 \<and> n \<noteq> 215)
         then char_of (n + 32) else c)"

definition py_lower :: "string \<Rightarrow> string" where
  "py_lower s = map py_lower_char s"

text \<open>\<open>sub in text\<close> on strings: \<open>sub\<close> occurs as a contiguous block of \<open>text\<close>.\<close>

fun py_in :: "string \<Rightarrow> string \<Rightarrow> bool" where
  "py_in sub [] = (sub = [])"
| "py_in sub (c # cs) = (prefix sub (c # cs) \<or> py_in sub cs)"

text \<open>
  \<open>str.strip()\<close> removes the leading and trailing characters for which \<open>str.isspace\<close>
  holds; below 256 these are 9..13, 28..32, 0x85 and 0xA0.
\<close>

definition py_isspace :: "char \<Rightarrow> bool" where
  "py_isspace c =
     (let n = (of_char c :: nat)
      in (9 \<le> n \<and> n \<le> 13) \<or> (28 \<le> n \<and> n \<le> 32) \<or> n = 133 \<or> n = 160)"

definition py_strip :: "string \<Rightarrow> string" where
  "py_strip s = rev (dropWhile py_isspace (rev (dropWhile py_isspace s)))"

section \<open>External services and their effects\<close>

text \<open>
  An exception is a value. \<open>KeyError\<close> carries the missing key; every exception raised by an
  external library (a transport error, a time-out, a parsing error) is a \<open>ServiceError\<close>
  with its message.
\<close>

datatype exn = KeyError string | ServiceError string

text \<open>
  The request of \<open>openai_client.chat.completions.create\<close>: the model, the system and the
  user message, \<open>max_tokens\<close> and \<open>temperature\<close>.
\<close>

record chat_request =
  model_name :: string
  system_content :: string
  user_content :: string
  max_tokens :: nat
  temperature :: rat

text \<open>
  A query parameter of a request to the news provider: a number, a string, or a date (a day
  number, which the code formats as year-month-day).
\<close>

datatype param = PInt int | PStr string | PDate int

text \<open>
  What a function does besides returning is recorded as a list of events, in order: each
  call of the price provider (\<open>yf.Ticker(t).history(start, end)\<close>), each HTTP request to the
  news provider, each request to the language-generation service, and each message put on
  the page (\<open>st.error\<close>, and the boxes \<open>main\<close> renders before a \<open>return\<close>). An
  effectful function returns its result together with the events it caused.
\<close>

datatype event =
    HistoryCall string int int
  | NewsRequest string "(string \<times> param) list"
  | ChatCompletion chat_request
  | StError string exn
  | DateErrorBox
  | NoArticlesBox
  | ProcessingErrorBox exn

text \<open>
  The language-generation service, as the code uses it: the value of
  \<open>create(...).choices[0].message.content\<close> for a request, or the exception raised on the
  way to it.
\<close>

type_synonym completion_service = "chat_request \<Rightarrow> exn + string"

section \<open>Dictionaries\<close>

text \<open>
  A Python \<open>dict\<close> keeps its keys in insertion order, so it is modelled as an association
  list with one pair per key. \<open>d.get(k, default)\<close> is \<open>dict_get\<close>; the assignment
  \<open>d[k] = v\<close> is \<open>AList.update\<close>, which replaces the value of a key in place and puts a new
  key last; \<open>d[k].append(x)\<close> on a key that is present is \<open>dict_append\<close>.
\<close>

definition dict_get :: "('k \<times> 'v) list \<Rightarrow> 'k \<Rightarrow> 'v \<Rightarrow> 'v" where
  "dict_get d k dflt = (case map_of d k of None \<Rightarrow> dflt | Some v \<Rightarrow> v)"

definition dict_append :: "'k \<Rightarrow> 'a \<Rightarrow> ('k \<times> 'a list) list \<Rightarrow> ('k \<times> 'a list) list" where
  "dict_append k x d = AList.map_entry k (\<lambda>xs. xs @ [x]) d"

section \<open>Articles and the theme classifier\<close>

text \<open>
  An article is the JSON object of the news provider: a dictionary from field names to
  values. The fields the code reads (\<open>title\<close>, \<open>teaser\<close>, \<open>created\<close>, \<open>url\<close>) are strings
  in the provider's records, and the model takes every value as a string.
\<close>

type_synonym article = "(string \<times> string) list"

type_synonym theme_buckets = "(string \<times> article list) list"

text \<open>
  The text both the classifier and the scorer search: \<open>title.lower()\<close>, a blank,
  \<open>teaser.lower()\<close>.
\<close>

definition article_text :: "article \<Rightarrow> string" where
  "article_text article =
     (let title = py_lower (dict_get article ''title'' []);
          teaser = py_lower (dict_get article ''teaser'' [])
      in title @ '' '' @ teaser)"

text \<open>\<open>any(word in text for word in words)\<close>.\<close>

definition any_in :: "string list \<Rightarrow> string \<Rightarrow> bool" where
  "any_in words t = list_ex (\<lambda>word. py_in word t) words"

definition initial_themes :: theme_buckets where
  "initial_themes =
     [(''earnings'', []), (''fed_policy'', []), (''trade_tensions'', []),
      (''tech_developments'', []), (''geopolitical'', []), (''market_movements'', []),
      (''deals_ma'', []), (''china_sea'', []), (''crypto'', []), (''other'', [])]"

text \<open>
  One \<open>if any(...): themes[label].append(article); categorized = True\<close> of the loop body,
  on the pair of the buckets and the flag \<open>categorized\<close>.
\<close>

definition theme_rule :: "string list \<Rightarrow> string \<Rightarrow> article \<Rightarrow> string \<Rightarrow> theme_buckets \<times> bool \<Rightarrow> theme_buckets \<times> bool" where
  "theme_rule words label article t st =
     (if any_in words t then (dict_append label article (fst st), True) else st)"

text \<open>The body of the loop of \<open>categorize_news_themes\<close>, for one article.\<close>

definition categorize_article :: "theme_buckets \<Rightarrow> article \<Rightarrow> theme_buckets" where
  "categorize_article themes article =
     (let t = article_text article;
          st = (themes, False);
          st = theme_rule [''earnings'', ''revenue'', ''profit'', ''quarterly'', ''eps'']
                 ''earnings'' article t st;
          st = theme_rule [''fed'', ''federal reserve'', ''interest rates'', ''powell'', ''monetary'']
                 ''fed_policy'' article t st;
          st = theme_rule [''tariff'', ''trade war'', ''trade deal'', ''import'', ''export'']
                 ''trade_tensions'' article t st;
          st = theme_rule [''ai'', ''artificial intelligence'', ''tech'', ''semiconductor'', ''chip'']
                 ''tech_developments'' article t st;
          st = theme_rule [''trump'', ''election'', ''government'', ''policy'', ''regulation'']
                 ''geopolitical'' article t st;
          st = theme_rule [''surge'', ''plunge'', ''rally'', ''crash'', ''soar'', ''tumble'']
                 ''market_movements'' article t st;
          st = theme_rule [''merger'', ''acquisition'', ''deal'', ''buyout'', ''takeover'']
                 ''deals_ma'' article t st;
          st = theme_rule [''china'', ''chinese'', ''asia'', ''singapore'', ''hong kong'']
                 ''china_sea'' article t st;
          st = theme_rule [''bitcoin'', ''crypto'', ''blockchain'', ''ethereum'']
                 ''crypto'' article t st
      in if \<not> snd st then dict_append ''other'' article (fst st) else fst st)"

definition categorize_news_themes :: "article list \<Rightarrow> theme_buckets" where
  "categorize_news_themes articles = foldl categorize_article initial_themes articles"

text \<open>
  The theme labels a set of buckets files an article under: the keys, in the order of the
  dictionary, whose bucket holds the article.
\<close>

definition labels_of :: "theme_buckets \<Rightarrow> article \<Rightarrow> string list" where
  "labels_of themes article = map fst (filter (\<lambda>(label, bucket). article \<in> set bucket) themes)"

subsection \<open>The classification rule in the words of the specification\<close>

text \<open>
  The default keyword table, one rule per theme label, and the rule of the specification:
  a keyword matches a text when some block of the text equals the keyword up to case; a
  rule matches when any of its keywords does; an article gets the labels of all matching
  rules, and exactly the label \<open>other\<close> when none matches.
\<close>

definition default_keyword_table :: "(string \<times> string list) list" where
  "default_keyword_table =
     [(''earnings'', [''earnings'', ''revenue'', ''profit'', ''quarterly'', ''eps'']),
      (''fed_policy'', [''fed'', ''federal reserve'', ''interest rates'', ''powell'', ''monetary'']),
      (''trade_tensions'', [''tariff'', ''trade war'', ''trade deal'', ''import'', ''export'']),
      (''tech_developments'', [''ai'', ''artificial intelligence'', ''tech'', ''semiconductor'', ''chip'']),
      (''geopolitical'', [''trump'', ''election'', ''government'', ''policy'', ''regulation'']),
      (''market_movements'', [''surge'', ''plunge'', ''rally'', ''crash'', ''soar'', ''tumble'']),
      (''deals_ma'', [''merger'', ''acquisition'', ''deal'', ''buyout'', ''takeover'']),
      (''china_sea'', [''china'', ''chinese'', ''asia'', ''singapore'', ''hong kong'']),
      (''crypto'', [''bitcoin'', ''crypto'', ''blockchain'', ''ethereum''])]"

definition ci_substring :: "string \<Rightarrow> string \<Rightarrow> bool" where
  "ci_substring kw t = (\<exists>u. sublist u t \<and> py_lower u = py_lower kw)"

definition matching_labels :: "(string \<times> string list) list \<Rightarrow> string \<Rightarrow> string set" where
  "matching_labels table t =
     {label. \<exists>kws. (label, kws) \<in> set table \<and> (\<exists>kw \<in> set kws. ci_substring kw t)}"

definition spec_labels :: "(string \<times> string list) list \<Rightarrow> article \<Rightarrow> string set" where
  "spec_labels table article =
     (let t = dict_get article ''title'' [] @ '' '' @ dict_get article ''teaser'' [];
          m = matching_labels table t
      in if m = {} then {''other''} else m)"

text \<open>
  The nine rules of the loop body as one pass over the keyword table. The body above is this
  pass over \<open>default_keyword_table\<close> (lemma \<open>categorize_article_rules\<close>); the proofs go
  through it.
\<close>

definition apply_rules :: "(string \<times> string list) list \<Rightarrow> article \<Rightarrow> string \<Rightarrow> theme_buckets \<times> bool \<Rightarrow> theme_buckets \<times> bool" where
  "apply_rules rules a t st = foldl (\<lambda>st (l, ws). theme_rule ws l a t st) st rules"

text \<open>The article of the specification's example, and one that matches no rule.\<close>

definition fed_article :: article where
  "fed_article = [(''title'', ''Fed signals new tariffs on China imports'')]"

definition quiet_article :: article where
  "quiet_article = [(''title'', ''Quiet day''), (''teaser'', ''Nothing happened'')]"

section \<open>Importance scorer and extractor\<close>

text \<open>
  \<open>datetime.fromisoformat\<close> is the standard library's parser and is taken as a parameter:
  it raises \<open>ValueError\<close>, or returns a datetime without a UTC offset (naive), or one with
  an offset (aware). The model holds the instant of a datetime as microseconds since the
  epoch, a naive one read in the time zone of the machine. The wall clock
  \<open>datetime.now().astimezone()\<close> is a parameter too, in the same unit.
\<close>

datatype parsed_time = ValueError | Naive int | Aware int

text \<open>\<open>s.replace('Z', '+00:00')\<close>.\<close>

definition replace_Z :: "string \<Rightarrow> string" where
  "replace_Z s = concat (map (\<lambda>c. if c = CHR ''Z'' then ''+00:00'' else [c]) s)"

text \<open>
  The \<open>try\<close> block of the scorer. A \<open>ValueError\<close> of the parser and the \<open>TypeError\<close> of
  subtracting a naive datetime from the aware clock are swallowed by the bare \<open>except\<close>.
  \<open>hours_old < 24\<close> compares \<open>total_seconds() / 3600\<close> with 24, which holds exactly when
  fewer than 86400000000 microseconds lie between the two instants.
\<close>

definition recency_bonus :: "(string \<Rightarrow> parsed_time) \<Rightarrow> int \<Rightarrow> article \<Rightarrow> int" where
  "recency_bonus fromisoformat now article =
     (case fromisoformat (replace_Z (dict_get article ''created'' [])) of
        Aware created_time \<Rightarrow> (if now - created_time < 24 * 3600 * 1000000 then 5 else 0)
      | Naive created_time \<Rightarrow> 0
      | ValueError \<Rightarrow> 0)"

definition major_companies :: "string list" where
  "major_companies = [''apple'', ''microsoft'', ''google'', ''amazon'', ''tesla'', ''meta'', ''nvidia'']"

definition impact_words :: "string list" where
  "impact_words = [''billion'', ''million'', ''record'', ''historic'', ''breakthrough'', ''crisis'']"

definition urgent_words :: "string list" where
  "urgent_words = [''breaking'', ''just in'', ''urgent'', ''alert'']"

text \<open>\<open>sum(w for word in words if word in text)\<close>.\<close>

definition sum_if_in :: "int \<Rightarrow> string list \<Rightarrow> string \<Rightarrow> int" where
  "sum_if_in w words t = sum_list (map (\<lambda>word. w) (filter (\<lambda>word. py_in word t) words))"

definition score_article_importance :: "(string \<Rightarrow> parsed_time) \<Rightarrow> int \<Rightarrow> article \<Rightarrow> int" where
  "score_article_importance fromisoformat now article =
     (let score = 0;
          t = article_text article;
          score = score + sum_if_in 5 major_companies t;
          score = score + sum_if_in 3 impact_words t;
          score = score + sum_if_in 4 urgent_words t;
          score = score + recency_bonus fromisoformat now article
      in score)"

text \<open>
  The extractor scores the articles one call after the other, and every call reads the
  clock for itself. \<open>clock n\<close> is the wall clock at the scorer's call number \<open>n\<close> (counted
  from 0 over the whole run of the extractor).
\<close>

fun score_articles :: "(string \<Rightarrow> parsed_time) \<Rightarrow> (nat \<Rightarrow> int) \<Rightarrow> nat \<Rightarrow> article list \<Rightarrow> (article \<times> int) list" where
  "score_articles fromisoformat clock n [] = []"
| "score_articles fromisoformat clock n (article # articles) =
     (article, score_article_importance fromisoformat (clock n) article)
       # score_articles fromisoformat clock (Suc n) articles"

text \<open>
  \<open>xs.sort(key=k, reverse=True)\<close>: the list is reversed, sorted stably by ascending key,
  and reversed again.
\<close>

definition sort_reverse :: "('a \<Rightarrow> int) \<Rightarrow> 'a list \<Rightarrow> 'a list" where
  "sort_reverse k xs = rev (sort_key k (rev xs))"

text \<open>The slice \<open>xs[:limit]\<close>; a negative limit counts from the end.\<close>

definition slice_to :: "int \<Rightarrow> 'a list \<Rightarrow> 'a list" where
  "slice_to limit xs =
     (if limit < 0 then take (length xs - nat (- limit)) xs else take (nat limit) xs)"

text \<open>
  The loop of \<open>extract_key_stories\<close> over \<open>themes.items()\<close>, on the pair of the result so far
  and the number of scorer calls made.
\<close>

fun extract_loop :: "(string \<Rightarrow> parsed_time) \<Rightarrow> (nat \<Rightarrow> int) \<Rightarrow> int \<Rightarrow> ('k \<times> article list) list
    \<Rightarrow> ('k \<times> article list) list \<times> nat \<Rightarrow> ('k \<times> article list) list" where
  "extract_loop fromisoformat clock limit [] (key_stories, n) = key_stories"
| "extract_loop fromisoformat clock limit ((theme, articles) # rest) (key_stories, n) =
     (if articles = [] then extract_loop fromisoformat clock limit rest (key_stories, n)
      else
        (let scored_articles = score_articles fromisoformat clock n articles;
             scored_articles = sort_reverse snd scored_articles
         in extract_loop fromisoformat clock limit rest
              (AList.update theme (map fst (slice_to limit scored_articles)) key_stories,
               n + length articles)))"

definition extract_key_stories :: "(string \<Rightarrow> parsed_time) \<Rightarrow> (nat \<Rightarrow> int) \<Rightarrow> ('k \<times> article list) list \<Rightarrow> int
    \<Rightarrow> ('k \<times> article list) list" where
  "extract_key_stories fromisoformat clock themes limit =
     extract_loop fromisoformat clock limit themes ([], 0)"

subsection \<open>The ranking in the words of the specification\<close>

text \<open>
  \<open>ranked\<close> is the list \<open>scored\<close> of articles with their scores, sorted by descending score
  with ties keeping the original order: it has the same elements, the scores never
  increase along it, and for every score the elements with that score stand in the order
  they have in \<open>scored\<close>.
\<close>

definition ranked_by_score :: "('a \<times> int) list \<Rightarrow> ('a \<times> int) list \<Rightarrow> bool" where
  "ranked_by_score scored ranked \<longleftrightarrow>
     mset ranked = mset scored
     \<and> sorted_wrt (\<lambda>x y. snd x \<ge> snd y) ranked
     \<and> (\<forall>s. filter (\<lambda>x. snd x = s) ranked = filter (\<lambda>x. snd x = s) scored)"

text \<open>
  The number of scorer calls made before the extractor reaches the bucket of a theme: the
  sizes of the buckets in front of it.
\<close>

definition calls_before :: "('k \<times> article list) list \<Rightarrow> 'k \<Rightarrow> nat" where
  "calls_before themes theme =
     sum_list (map (\<lambda>(k, bucket). length bucket) (takeWhile (\<lambda>(k, bucket). k \<noteq> theme) themes))"

subsection \<open>The score in the words of the specification\<close>

text \<open>
  The score as the specification words it: 5 for each major company, 3 for each impact
  keyword and 4 for each urgency keyword occurring in the lower-cased title and teaser,
  and a flat 5 whenever the creation timestamp of the article is less than 24 hours before
  the evaluation time, whatever the form the timestamp is written in.
\<close>

definition claimed_score :: "(string \<Rightarrow> parsed_time) \<Rightarrow> int \<Rightarrow> article \<Rightarrow> int" where
  "claimed_score fromisoformat now article =
     (let title = (case map_of article ''title'' of None \<Rightarrow> [] | Some v \<Rightarrow> v);
          teaser = (case map_of article ''teaser'' of None \<Rightarrow> [] | Some v \<Rightarrow> v);
          created = (case map_of article ''created'' of None \<Rightarrow> [] | Some v \<Rightarrow> v);
          lowered = map py_lower_char title @ '' '' @ map py_lower_char teaser;
          occurring = (\<lambda>ws. int (card {w \<in> set ws. sublist w lowered}))
      in 5 * occurring [''apple'', ''microsoft'', ''google'', ''amazon'', ''tesla'', ''meta'', ''nvidia'']
       + 3 * occurring [''billion'', ''million'', ''record'', ''historic'', ''breakthrough'', ''crisis'']
       + 4 * occurring [''breaking'', ''just in'', ''urgent'', ''alert'']
       + (case fromisoformat (concat (map (\<lambda>c. if c = CHR ''Z'' then ''+00:00'' else [c]) created)) of
            Aware created_time \<Rightarrow> if now - created_time < 86400000000 then 5 else 0
          | Naive created_time \<Rightarrow> if now - created_time < 86400000000 then 5 else 0
          | ValueError \<Rightarrow> 0))"

text \<open>
  Examples: articles, a parser that knows one timestamp in two spellings (with an offset,
  and without one), and a clock.
\<close>

definition naive_article :: article where
  "naive_article =
     [(''title'', ''Apple unveils a headset''), (''created'', ''2024-05-01T10:00:00'')]"

definition future_article :: article where
  "future_article =
     [(''title'', ''Markets drift''), (''created'', ''2024-05-01T10:00:00Z'')]"

definition plain_article :: article where
  "plain_article = [(''title'', ''Markets drift'')]"

definition apple_article :: article where
  "apple_article = [(''title'', ''Apple unveils a headset'')]"

definition tesla_article :: article where
  "tesla_article = [(''title'', ''Tesla recalls cars'')]"

definition breaking_article :: article where
  "breaking_article =
     [(''title'', ''BREAKING: Apple and Microsoft post record results''),
      (''teaser'', ''A billion in profit''),
      (''created'', ''2024-05-01T10:00:00Z'')]"

definition example_fromisoformat :: "string \<Rightarrow> parsed_time" where
  "example_fromisoformat s =
     (if s = ''2024-05-01T10:00:00+00:00'' then Aware 1714557600000000
      else if s = ''2024-05-01T10:00:00'' then Naive 1714557600000000
      else ValueError)"

definition example_buckets :: "(string \<times> article list) list" where
  "example_buckets =
     [(''tech_developments'', [plain_article, apple_article, quiet_article, tesla_article]),
      (''crypto'', [])]"

section \<open>Market performance aggregator\<close>

text \<open>
  Prices are the floating-point numbers of the price provider. The model does not fix their
  arithmetic: the type \<open>'f\<close> of prices and the operations the code applies to them
  (subtraction, division, multiplication, the constant 100 and \<open>round(x, 2)\<close>) are
  parameters, so every statement about the aggregator holds for whatever these operations
  compute. None of them raises on the provider's numbers: dividing by a zero price gives an
  infinity or a NaN with a warning, not an exception.
\<close>

record 'f float_ops =
  fsub :: "'f \<Rightarrow> 'f \<Rightarrow> 'f"
  fdiv :: "'f \<Rightarrow> 'f \<Rightarrow> 'f"
  fmul :: "'f \<Rightarrow> 'f \<Rightarrow> 'f"
  hundred :: "'f"
  round2 :: "'f \<Rightarrow> 'f"

text \<open>
  The price provider, as the code uses it: the \<open>Close\<close> column of
  \<open>yf.Ticker(ticker).history(start=..., end=...)\<close>, one price per row, or the exception the
  call raises. Dates are day numbers; the code passes the end date plus one day.
\<close>

type_synonym 'f history_service = "string \<Rightarrow> int \<Rightarrow> int \<Rightarrow> exn + 'f list"

text \<open>The instrument tables that \<open>_setup_market_config\<close> stores in the generator.\<close>

record config =
  market_indices :: "(string \<times> string) list"
  sector_etfs :: "(string \<times> string) list"
  major_stocks :: "string list"
  sea_stocks :: "string list"

definition default_config :: config where
  "default_config =
     \<lparr> market_indices =
         [(''^GSPC'', ''S&P 500''), (''^DJI'', ''Dow Jones''), (''^IXIC'', ''NASDAQ''),
          (''^RUT'', ''Russell 2000''), (''^VIX'', ''VIX''), (''^STOXX50E'', ''Euro Stoxx 50''),
          (''^FTSE'', ''FTSE 100''), (''^GDAXI'', ''DAX''), (''^FCHI'', ''CAC 40''),
          (''^HSI'', ''Hang Seng''), (''^N225'', ''Nikkei 225''),
          (''000001.SS'', ''Shanghai Composite''), (''^STI'', ''Straits Times Index''),
          (''EURUSD=X'', ''EUR/USD''), (''GBPUSD=X'', ''GBP/USD''), (''USDJPY=X'', ''USD/JPY''),
          (''USDCNY=X'', ''USD/CNY''), (''GC=F'', ''Gold''), (''CL=F'', ''Crude Oil''),
          (''^TNX'', ''10-Year Treasury'')],
       sector_etfs =
         [(''XLK'', ''Technology''), (''XLF'', ''Financials''), (''XLV'', ''Healthcare''),
          (''XLE'', ''Energy''), (''XLI'', ''Industrials''), (''XLP'', ''Consumer Staples''),
          (''XLY'', ''Consumer Discretionary''), (''XLU'', ''Utilities''), (''XLB'', ''Materials''),
          (''XLRE'', ''Real Estate''), (''XLC'', ''Communication Services'')],
       major_stocks =
         [''AAPL'', ''MSFT'', ''GOOGL'', ''AMZN'', ''TSLA'', ''META'', ''NVDA'', ''JPM'', ''JNJ'',
          ''V'', ''WMT'', ''UNH'', ''HD'', ''PG'', ''MA''],
       sea_stocks = [''BABA'', ''JD'', ''TCEHY'', ''PDD'', ''BIDU'', ''GRAB'', ''SEA''] \<rparr>"

text \<open>
  The result dictionary \<open>market_data\<close> maps the ticker of an index to its entry, and the two
  keys \<open>sectors\<close> and \<open>stocks\<close> to dictionaries of their own.
\<close>

record 'f index_entry =
  idx_name :: string
  idx_current_price :: "'f"
  idx_change_pct :: "'f"
  idx_start_price :: "'f"

record 'f sector_entry =
  sec_name :: string
  sec_change_pct :: "'f"

record 'f stock_entry =
  stk_change_pct :: "'f"
  stk_current_price :: "'f"

datatype 'f market_value =
    IndexEntry "'f index_entry"
  | SectorData "(string \<times> 'f sector_entry) list"
  | StockData "(string \<times> 'f stock_entry) list"

type_synonym 'f market_data = "(string \<times> 'f market_value) list"

text \<open>\<open>((end_price - start_price) / start_price) * 100\<close>.\<close>

definition change_pct_of :: "'f float_ops \<Rightarrow> 'f \<Rightarrow> 'f \<Rightarrow> 'f" where
  "change_pct_of ops start_price end_price =
     fmul ops (fdiv ops (fsub ops end_price start_price) start_price) (hundred ops)"

text \<open>
  The guard and the three assignments every loop repeats: with
  \<open>not hist.empty and len(hist) >= 2\<close>, the first close, the last close and the change;
  nothing otherwise.
\<close>

definition price_change :: "'f float_ops \<Rightarrow> 'f list \<Rightarrow> ('f \<times> 'f \<times> 'f) option" where
  "price_change ops hist =
     (if hist \<noteq> [] \<and> length hist \<ge> 2
      then (let start_price = hd hist;
                end_price = last hist;
                change_pct = change_pct_of ops start_price end_price
            in Some (start_price, end_price, change_pct))
      else None)"

text \<open>
  The three loops. Each body is a \<open>try\<close> whose handler is \<open>continue\<close>: an exception of the
  provider leaves the dictionary as it is and the loop goes on. The state is the dictionary
  built so far and the events so far.
\<close>

fun index_loop :: "'f float_ops \<Rightarrow> 'f history_service \<Rightarrow> int \<Rightarrow> int \<Rightarrow> (string \<times> string) list
    \<Rightarrow> 'f market_data \<times> event list \<Rightarrow> 'f market_data \<times> event list" where
  "index_loop ops history start_date end_date [] st = st"
| "index_loop ops history start_date end_date ((ticker, name) # rest) (market_data, events) =
     index_loop ops history start_date end_date rest
       (case history ticker start_date (end_date + 1) of
          Inl exc \<Rightarrow> (market_data, events @ [HistoryCall ticker start_date (end_date + 1)])
        | Inr hist \<Rightarrow>
            (case price_change ops hist of
               None \<Rightarrow> (market_data, events @ [HistoryCall ticker start_date (end_date + 1)])
             | Some (start_price, end_price, change_pct) \<Rightarrow>
                 (AList.update ticker
                    (IndexEntry \<lparr> idx_name = name,
                                  idx_current_price = round2 ops end_price,
                                  idx_change_pct = round2 ops change_pct,
                                  idx_start_price = round2 ops start_price \<rparr>)
                    market_data,
                  events @ [HistoryCall ticker start_date (end_date + 1)])))"

fun sector_loop :: "'f float_ops \<Rightarrow> 'f history_service \<Rightarrow> int \<Rightarrow> int \<Rightarrow> (string \<times> string) list
    \<Rightarrow> (string \<times> 'f sector_entry) list \<times> event list \<Rightarrow> (string \<times> 'f sector_entry) list \<times> event list" where
  "sector_loop ops history start_date end_date [] st = st"
| "sector_loop ops history start_date end_date ((ticker, name) # rest) (sector_data, events) =
     sector_loop ops history start_date end_date rest
       (case history ticker start_date (end_date + 1) of
          Inl exc \<Rightarrow> (sector_data, events @ [HistoryCall ticker start_date (end_date + 1)])
        | Inr hist \<Rightarrow>
            (case price_change ops hist of
               None \<Rightarrow> (sector_data, events @ [HistoryCall ticker start_date (end_date + 1)])
             | Some (start_price, end_price, change_pct) \<Rightarrow>
                 (AList.update ticker
                    \<lparr> sec_name = name, sec_change_pct = round2 ops change_pct \<rparr>
                    sector_data,
                  events @ [HistoryCall ticker start_date (end_date + 1)])))"

fun stock_loop :: "'f float_ops \<Rightarrow> 'f history_service \<Rightarrow> int \<Rightarrow> int \<Rightarrow> string list
    \<Rightarrow> (string \<times> 'f stock_entry) list \<times> event list \<Rightarrow> (string \<times> 'f stock_entry) list \<times> event list" where
  "stock_loop ops history start_date end_date [] st = st"
| "stock_loop ops history start_date end_date (ticker # rest) (stock_data, events) =
     stock_loop ops history start_date end_date rest
       (case history ticker start_date (end_date + 1) of
          Inl exc \<Rightarrow> (stock_data, events @ [HistoryCall ticker start_date (end_date + 1)])
        | Inr hist \<Rightarrow>
            (case price_change ops hist of
               None \<Rightarrow> (stock_data, events @ [HistoryCall ticker start_date (end_date + 1)])
             | Some (start_price, end_price, change_pct) \<Rightarrow>
                 (AList.update ticker
                    \<lparr> stk_change_pct = round2 ops change_pct,
                      stk_current_price = round2 ops end_price \<rparr>
                    stock_data,
                  events @ [HistoryCall ticker start_date (end_date + 1)])))"

definition get_market_data_by_range :: "'f float_ops \<Rightarrow> 'f history_service \<Rightarrow> config \<Rightarrow> int \<Rightarrow> int
    \<Rightarrow> 'f market_data \<times> event list" where
  "get_market_data_by_range ops history cfg start_date end_date =
     (let (market_data, events) =
            index_loop ops history start_date end_date (market_indices cfg) ([], []);
          (sector_data, events) =
            sector_loop ops history start_date end_date (sector_etfs cfg) ([], events);
          market_data = AList.update ''sectors'' (SectorData sector_data) market_data;
          all_stocks = major_stocks cfg @ sea_stocks cfg;
          (stock_data, events) =
            stock_loop ops history start_date end_date all_stocks ([], events);
          market_data = AList.update ''stocks'' (StockData stock_data) market_data
      in (market_data, events))"

subsection \<open>The three loops as one\<close>

text \<open>
  The loops differ only in the items they run over and in the entry they store. \<open>fetch_loop\<close>
  is their common shape, with the key of an item and the entry as parameters; each loop is
  an instance of it (lemmas \<open>index_loop_fetch\<close>, \<open>sector_loop_fetch\<close>, \<open>stock_loop_fetch\<close>), and
  the proofs go through it.
\<close>

fun fetch_loop :: "'f float_ops \<Rightarrow> 'f history_service \<Rightarrow> int \<Rightarrow> int \<Rightarrow> ('i \<Rightarrow> string)
    \<Rightarrow> ('i \<Rightarrow> 'f \<times> 'f \<times> 'f \<Rightarrow> 'v) \<Rightarrow> 'i list
    \<Rightarrow> (string \<times> 'v) list \<times> event list \<Rightarrow> (string \<times> 'v) list \<times> event list" where
  "fetch_loop ops history start_date end_date key entry [] st = st"
| "fetch_loop ops history start_date end_date key entry (item # rest) (d, events) =
     fetch_loop ops history start_date end_date key entry rest
       (case history (key item) start_date (end_date + 1) of
          Inl exc \<Rightarrow> (d, events @ [HistoryCall (key item) start_date (end_date + 1)])
        | Inr hist \<Rightarrow>
            (case price_change ops hist of
               None \<Rightarrow> (d, events @ [HistoryCall (key item) start_date (end_date + 1)])
             | Some p \<Rightarrow>
                 (AList.update (key item) (entry item p) d,
                  events @ [HistoryCall (key item) start_date (end_date + 1)])))"

text \<open>
  What one instrument contributes: the first close, the last close and the change when the
  call returns at least two prices, and nothing when it raises or returns fewer.
\<close>

definition observed :: "'f float_ops \<Rightarrow> 'f history_service \<Rightarrow> int \<Rightarrow> int \<Rightarrow> string \<Rightarrow> ('f \<times> 'f \<times> 'f) option" where
  "observed ops history start_date end_date ticker =
     (case history ticker start_date (end_date + 1) of
        Inl exc \<Rightarrow> None
      | Inr hist \<Rightarrow> price_change ops hist)"

text \<open>
  A configuration is well formed when its tables are dictionaries (one entry per ticker),
  no stock is listed twice, and no index uses one of the two group keys as its ticker.
\<close>

definition config_ok :: "config \<Rightarrow> bool" where
  "config_ok cfg \<longleftrightarrow>
     distinct (map fst (market_indices cfg))
     \<and> distinct (map fst (sector_etfs cfg))
     \<and> distinct (major_stocks cfg @ sea_stocks cfg)
     \<and> ''sectors'' \<notin> fst ` set (market_indices cfg)
     \<and> ''stocks'' \<notin> fst ` set (market_indices cfg)"

subsection \<open>Exact arithmetic for the fixtures\<close>

text \<open>
  For the literal fixtures of the specification the operations are instantiated with exact
  arithmetic on rationals, \<open>None\<close> standing for a result that is not finite, and with
  \<open>round(x, 2)\<close> rounding to the nearest hundredth, a tie going to the even neighbour.
\<close>

definition round_half_even :: "rat \<Rightarrow> int" where
  "round_half_even y =
     (let f = \<lfloor>y\<rfloor>; r = y - of_int f
      in if r < 1 / 2 then f else if 1 / 2 < r then f + 1 else if even f then f else f + 1)"

definition exact_ops :: "rat option float_ops" where
  "exact_ops =
     \<lparr> fsub = (\<lambda>a b. case (a, b) of (Some x, Some y) \<Rightarrow> Some (x - y) | _ \<Rightarrow> None),
       fdiv = (\<lambda>a b. case (a, b) of (Some x, Some y) \<Rightarrow> (if y = 0 then None else Some (x / y))
                               | _ \<Rightarrow> None),
       fmul = (\<lambda>a b. case (a, b) of (Some x, Some y) \<Rightarrow> Some (x * y) | _ \<Rightarrow> None),
       hundred = Some 100,
       round2 = (\<lambda>a. case a of Some x \<Rightarrow> Some (of_int (round_half_even (x * 100)) / 100)
                           | None \<Rightarrow> None) \<rparr>"

text \<open>Whether an instrument succeeds: the call returns, with at least two prices.\<close>

definition succeeded :: "'f history_service \<Rightarrow> int \<Rightarrow> int \<Rightarrow> string \<Rightarrow> bool" where
  "succeeded history start_date end_date ticker =
     (case history ticker start_date (end_date + 1) of
        Inl exc \<Rightarrow> False
      | Inr hist \<Rightarrow> 2 \<le> length hist)"

text \<open>
  Fixtures. A configuration with three indices, two sector funds and one stock, and a
  provider that answers \<open>^GSPC\<close> with the closes 4000, 4050, 4100, \<open>^IXIC\<close> with 15000
  and 15300, \<open>XLK\<close> with 100 and 110, \<open>XLF\<close> with the single close 50, and raises a
  transport error for everything else. The configuration of the specification's scenario,
  with one index and no sector fund or stock. A provider that raises for every instrument.
\<close>

definition small_config :: config where
  "small_config =
     \<lparr> market_indices = [(''^GSPC'', ''S&P 500''), (''^DJI'', ''Dow Jones''), (''^IXIC'', ''NASDAQ'')],
       sector_etfs = [(''XLK'', ''Technology''), (''XLF'', ''Financials'')],
       major_stocks = [''AAPL''],
       sea_stocks = [] \<rparr>"

definition one_index_config :: config where
  "one_index_config =
     \<lparr> market_indices = [(''^GSPC'', ''S&P 500'')],
       sector_etfs = [], major_stocks = [], sea_stocks = [] \<rparr>"

definition example_history :: "rat option history_service" where
  "example_history ticker start_date end_date =
     (if ticker = ''^GSPC'' then Inr [Some 4000, Some 4050, Some 4100]
      else if ticker = ''^IXIC'' then Inr [Some 15000, Some 15300]
      else if ticker = ''XLK'' then Inr [Some 100, Some 110]
      else if ticker = ''XLF'' then Inr [Some 50]
      else Inl (ServiceError ''connection reset''))"

definition failing_history :: "rat option history_service" where
  "failing_history ticker start_date end_date = Inl (ServiceError ''connection reset'')"

section \<open>Report prompt builder\<close>

text \<open>
  \<open>str.upper\<close> and \<open>str.title\<close> follow the Unicode case mapping, which is not closed on
  the characters of the model (the upper case of some Latin-1 letters lies outside them);
  the renderer takes both as parameters. \<open>ascii_upper\<close> is what \<open>str.upper\<close> does on
  ASCII text, and \<open>ascii_title\<close> what \<open>str.title\<close> does there: the first letter of every
  run of letters in upper case, the other letters in lower case.
\<close>

definition ascii_upper_char :: "char \<Rightarrow> char" where
  "ascii_upper_char c =
     (let n = (of_char c :: nat) in if 97 \<le> n \<and> n \<le> 122 then char_of (n - 32) else c)"

definition ascii_lower_char :: "char \<Rightarrow> char" where
  "ascii_lower_char c =
     (let n = (of_char c :: nat) in if 65 \<le> n \<and> n \<le> 90 then char_of (n + 32) else c)"

definition ascii_is_letter :: "char \<Rightarrow> bool" where
  "ascii_is_letter c =
     (let n = (of_char c :: nat) in (65 \<le> n \<and> n \<le> 90) \<or> (97 \<le> n \<and> n \<le> 122))"

definition ascii_upper :: "string \<Rightarrow> string" where
  "ascii_upper s = map ascii_upper_char s"

fun ascii_title_from :: "bool \<Rightarrow> string \<Rightarrow> string" where
  "ascii_title_from previous_is_cased [] = []"
| "ascii_title_from previous_is_cased (c # cs) =
     (if ascii_is_letter c
      then (if previous_is_cased then ascii_lower_char c else ascii_upper_char c)
             # ascii_title_from True cs
      else c # ascii_title_from False cs)"

definition ascii_title :: "string \<Rightarrow> string" where
  "ascii_title s = ascii_title_from False s"

text \<open>\<open>str(i)\<close> for a natural number, \<open>sep.join(lines)\<close>, the newline and the double quote.\<close>

fun str_nat :: "nat \<Rightarrow> string" where
  "str_nat n =
     (if n < 10 then [char_of (48 + n)] else str_nat (n div 10) @ [char_of (48 + n mod 10)])"

declare str_nat.simps [simp del]

fun join :: "string \<Rightarrow> string list \<Rightarrow> string" where
  "join sep [] = []"
| "join sep [x] = x"
| "join sep (x # y # ys) = x @ sep @ join sep (y # ys)"

definition newline :: string where
  "newline = [CHR 0x0A]"

definition dq :: string where
  "dq = [CHR 0x22]"

subsection \<open>News summary\<close>

definition theme_names :: "(string \<times> string) list" where
  "theme_names =
     [(''earnings'', ''Earnings Reports''), (''fed_policy'', ''Federal Reserve & Monetary Policy''),
      (''trade_tensions'', ''Trade & Tariffs''), (''tech_developments'', ''Technology Developments''),
      (''geopolitical'', ''Geopolitical Events''), (''market_movements'', ''Major Market Movements''),
      (''deals_ma'', ''Mergers & Acquisitions''), (''china_sea'', ''China & Asia-Pacific''),
      (''crypto'', ''Cryptocurrency''), (''other'', ''Other Notable News'')]"

text \<open>
  The body of the inner loop: seven lines are appended to \<open>summary\<close> for an article. The
  teaser is cut to 200 characters, with an ellipsis, when it is longer.
\<close>

definition append_entry :: "nat \<Rightarrow> article \<Rightarrow> string list \<Rightarrow> string list" where
  "append_entry i article summary =
     (let title = dict_get article ''title'' ''No title'';
          teaser = (if length (dict_get article ''teaser'' []) > 200
                    then take 200 (dict_get article ''teaser'' []) @ ''...''
                    else dict_get article ''teaser'' []);
          created = dict_get article ''created'' ''Date unknown'';
          url = dict_get article ''url'' ''No URL available'';
          summary = summary @ [str_nat i @ ''. TITLE: '' @ title];
          summary = summary @ [''   DATE: '' @ created];
          summary = summary @ [''   SUMMARY: '' @ teaser];
          summary = summary @ [''   SOURCE: Benzinga''];
          summary = summary @ [''   FULL ARTICLE: '' @ url];
          summary = summary @
            [''   DISCLAIMER: This is a third-party news source. Please verify independently.''];
          summary = summary @ [[]]
      in summary)"

text \<open>The inner loop \<open>for i, article in enumerate(articles[:3], 1)\<close>, called with the slice.\<close>

fun entry_loop :: "nat \<Rightarrow> article list \<Rightarrow> string list \<Rightarrow> string list" where
  "entry_loop i [] summary = summary"
| "entry_loop i (article # rest) summary = entry_loop (Suc i) rest (append_entry i article summary)"

text \<open>
  The body of the outer loop for a theme with articles: the header line, then the entries
  of \<open>articles[:3]\<close>, numbered from 1.
\<close>

definition append_theme :: "(string \<Rightarrow> string) \<Rightarrow> (string \<Rightarrow> string) \<Rightarrow> string \<Rightarrow> article list
    \<Rightarrow> string list \<Rightarrow> string list" where
  "append_theme upper title theme articles summary =
     (let theme_name = dict_get theme_names theme (title theme);
          summary = summary @ [newline @ upper theme_name @ '':'']
      in entry_loop 1 (take 3 articles) summary)"

text \<open>The outer loop over \<open>key_stories.items()\<close>; a theme without articles is passed over.\<close>

fun theme_loop :: "(string \<Rightarrow> string) \<Rightarrow> (string \<Rightarrow> string) \<Rightarrow> (string \<times> article list) list
    \<Rightarrow> string list \<Rightarrow> string list" where
  "theme_loop upper title [] summary = summary"
| "theme_loop upper title ((theme, articles) # rest) summary =
     (if articles = [] then theme_loop upper title rest summary
      else theme_loop upper title rest (append_theme upper title theme articles summary))"

definition create_news_summary_with_sources :: "(string \<Rightarrow> string) \<Rightarrow> (string \<Rightarrow> string)
    \<Rightarrow> (string \<times> article list) list \<Rightarrow> string" where
  "create_news_summary_with_sources upper title key_stories =
     join newline (theme_loop upper title key_stories [])"

subsection \<open>The rendered summary, section by section\<close>

text \<open>
  What the summary holds for one article and for one theme, written out: the seven lines
  of an entry, and the section of a theme, its header followed by the entries of the first
  three articles, numbered 1, 2, 3.
\<close>

definition entry_text :: "string \<Rightarrow> article \<Rightarrow> string list" where
  "entry_text number article =
     [number @ ''. TITLE: '' @ (case map_of article ''title'' of None \<Rightarrow> ''No title'' | Some v \<Rightarrow> v),
      ''   DATE: '' @ (case map_of article ''created'' of None \<Rightarrow> ''Date unknown'' | Some v \<Rightarrow> v),
      ''   SUMMARY: '' @
        (case map_of article ''teaser'' of
           None \<Rightarrow> []
         | Some v \<Rightarrow> if 200 < length v then take 200 v @ ''...'' else v),
      ''   SOURCE: Benzinga'',
      ''   FULL ARTICLE: '' @ (case map_of article ''url'' of None \<Rightarrow> ''No URL available'' | Some v \<Rightarrow> v),
      ''   DISCLAIMER: This is a third-party news source. Please verify independently.'',
      []]"

definition theme_section :: "(string \<Rightarrow> string) \<Rightarrow> (string \<Rightarrow> string) \<Rightarrow> string \<Rightarrow> article list \<Rightarrow> string list" where
  "theme_section upper title theme articles =
     ([CHR 0x0A] @ upper (case map_of theme_names theme of None \<Rightarrow> title theme | Some n \<Rightarrow> n) @ '':'')
       # concat (map (\<lambda>(number, article). entry_text number article)
                   (zip [''1'', ''2'', ''3''] articles))"

text \<open>A bucket of four articles, for the examples.\<close>

definition four_articles :: "article list" where
  "four_articles = [plain_article, apple_article, quiet_article, tesla_article]"

subsection \<open>Report generation\<close>

text \<open>
  A triple-quoted prompt of the source: a newline, then every line behind eight blanks and
  followed by a newline, then eight blanks.
\<close>

definition prompt_text :: "string list \<Rightarrow> string" where
  "prompt_text lines =
     newline @ concat (map (\<lambda>l. ''        '' @ l @ newline) lines) @ ''        ''"

definition system_prompt :: string where
  "system_prompt = prompt_text
     [
           ''You are a senior financial market analyst writing a professional market insights report for institutional clients.'',
           [],
           ''CRITICAL INSTRUCTIONS - COMPLIANCE & ACCURACY:'',
           ''- Use ONLY the provided market data and news articles'',
           ''- ALWAYS include source links for any news references in your analysis'',
           ''- When mentioning news stories, format as: '' @ dq @ ''According to Benzinga [insert URL], [story details]'' @ dq,
           ''- Add clear disclaimers that news content comes from third-party sources'',
           ''- Write with authority but acknowledge information sources transparently'',
           ''- Focus on analysis and interpretation rather than republishing news content'',
           ''- Maintain professional tone suitable for institutional clients'',
           [],
           ''COMPLIANCE REQUIREMENTS:'',
           ''- Include source attribution for all news references'',
           ''- Add disclaimers about third-party content'',
           ''- Focus on data analysis rather than news republication'',
           ''- Ensure readers can verify original sources independently'']"

definition user_prompt :: "string \<Rightarrow> string \<Rightarrow> string \<Rightarrow> string" where
  "user_prompt date_range performance_summary news_summary = prompt_text
     [
           ''Generate a comprehensive market insights report for the period '' @ date_range @ '':'',
           [],
           ''MARKET PERFORMANCE DATA (Verified):'',
           performance_summary,
           [],
           ''KEY NEWS DEVELOPMENTS WITH SOURCES:'',
           news_summary,
           [],
           ''COMPLIANCE INSTRUCTIONS:'',
           ''- For any news story mentioned, include the source URL from the data above'',
           ''- Use format: '' @ dq @ ''According to Benzinga (URL), [brief summary]'' @ dq,
           ''- Add disclaimer: '' @ dq @ ''Readers should verify information independently from original sources'' @ dq,
           ''- Focus on analytical insights rather than republishing full news content'',
           [],
           ''Structure the report with these sections:'',
           ''1. Executive Summary (3-4 key themes with source links)'',
           ''2. Market Performance Analysis (indices, sectors, notable movements)'',
           ''3. Key Developments During Period (major themes with source links and disclaimers)'',
           ''4. Notable Stock Movements (significant performers with context)'',
           ''5. Market Outlook (forward-looking analysis based on trends)'',
           ''6. Sources & Disclaimers (comprehensive source list and compliance notices)'',
           [],
           ''Target length: 1200-1500 words. Write for sophisticated investors expecting actionable intelligence with full transparency.'']"

definition report_request :: "string \<Rightarrow> string \<Rightarrow> string \<Rightarrow> chat_request" where
  "report_request date_range performance_summary news_summary =
     \<lparr> model_name = ''gpt-4o'',
       system_content = system_prompt,
       user_content = user_prompt date_range performance_summary news_summary,
       max_tokens = 2500,
       temperature = 7 / 10 \<rparr>"

text \<open>
  The parts of the builder that format floating-point numbers and dates are parameters: the
  rendered performance summary (\<open>_create_performance_summary\<close>) and
  \<open>strftime('%B %d, %Y')\<close>. \<open>renderer\<close> collects them with the two string methods.
\<close>

record 'f renderer =
  performance_summary_of :: "'f market_data \<Rightarrow> int \<Rightarrow> int \<Rightarrow> string"
  long_date :: "int \<Rightarrow> string"
  str_upper :: "string \<Rightarrow> string"
  str_title :: "string \<Rightarrow> string"

text \<open>
  \<open>generate_market_report\<close>. The request is issued once, inside the \<open>try\<close>; the handler
  shows a message and returns a fixed text.
\<close>

definition generate_market_report :: "completion_service \<Rightarrow> 'f renderer \<Rightarrow> 'f market_data
    \<Rightarrow> (string \<times> article list) list \<Rightarrow> int \<Rightarrow> int \<Rightarrow> string \<times> event list" where
  "generate_market_report llm r market_data key_stories start_date end_date =
     (let performance_summary = performance_summary_of r market_data start_date end_date;
          news_summary = create_news_summary_with_sources (str_upper r) (str_title r) key_stories;
          date_range = long_date r start_date @ '' to '' @ long_date r end_date;
          req = report_request date_range performance_summary news_summary
      in case llm req of
           Inr txt \<Rightarrow> (py_strip txt, [ChatCompletion req])
         | Inl e \<Rightarrow>
             (''Error generating market report'',
              [ChatCompletion req, StError ''OpenAI API error: '' e]))"

section \<open>News fetcher\<close>

text \<open>
  The news provider, as the code uses it: the value of \<open>json.loads\<close> on the body of the
  response to the request, or the exception raised on the way (building the request, the
  transfer, decoding, parsing). A parsed body is a list of article records or something
  else.
\<close>

datatype json_result = JsonList "article list" | JsonOther

type_synonym news_service = "string \<Rightarrow> (string \<times> param) list \<Rightarrow> exn + json_result"

text \<open>
  \<open>_make_benzinga_request\<close>. \<open>params\<close> may be \<open>None\<close>; the token is added to it. The
  handler of the \<open>try\<close> shows a message and returns the empty list; a body that is not a
  list gives the empty list too.
\<close>

definition make_benzinga_request :: "news_service \<Rightarrow> string \<Rightarrow> string \<Rightarrow> (string \<times> param) list option
    \<Rightarrow> article list \<times> event list" where
  "make_benzinga_request news benzinga_key endpoint params =
     (let params = (case params of None \<Rightarrow> [] | Some p \<Rightarrow> p);
          params = AList.update ''token'' (PStr benzinga_key) params
      in case news endpoint params of
           Inr (JsonList result) \<Rightarrow> (result, [NewsRequest endpoint params])
         | Inr JsonOther \<Rightarrow> ([], [NewsRequest endpoint params])
         | Inl e \<Rightarrow> ([], [NewsRequest endpoint params, StError ''Benzinga API error: '' e]))"

definition get_articles_by_date_range :: "news_service \<Rightarrow> string \<Rightarrow> int \<Rightarrow> int \<Rightarrow> article list \<times> event list" where
  "get_articles_by_date_range news benzinga_key start_date end_date =
     (let endpoint = ''/v2/news'';
          params = [(''pageSize'', PInt 200), (''displayOutput'', PStr ''full''),
                    (''dateFrom'', PDate start_date), (''dateTo'', PDate end_date)]
      in make_benzinga_request news benzinga_key endpoint (Some params))"

text \<open>Fixtures: a provider that is down, one with no news, and one with two articles.\<close>

definition failing_news :: news_service where
  "failing_news endpoint params = Inl (ServiceError ''connection refused'')"

definition empty_news :: news_service where
  "empty_news endpoint params = Inr (JsonList [])"

definition example_news :: news_service where
  "example_news endpoint params = Inr (JsonList [fed_article, quiet_article])"

section \<open>Translator\<close>

definition language_map :: "(string \<times> string) list" where
  "language_map =
     [(''Thai'', ''Thai''), (''Simplified Chinese'', ''Simplified Chinese''),
      (''Traditional Chinese'', ''Traditional Chinese''), (''Vietnamese'', ''Vietnamese'')]"

definition translation_request :: "string \<Rightarrow> string \<Rightarrow> chat_request" where
  "translation_request lang content =
     \<lparr> model_name = ''gpt-4o'',
       system_content =
         ''You are a professional financial translator. Translate the following market report to ''
         @ lang @ '' while maintaining professional tone and financial accuracy.'',
       user_content = content,
       max_tokens = 3000,
       temperature = 3 / 10 \<rparr>"

text \<open>
  \<open>translate_content\<close>. The lookup \<open>language_map[target_language]\<close> is evaluated inside the
  \<open>try\<close>, while the messages are built, so an unknown language raises \<open>KeyError\<close> before any
  request is issued and is handled like a failed request.
\<close>

definition translate_content :: "completion_service \<Rightarrow> string \<Rightarrow> string \<Rightarrow> string \<times> event list" where
  "translate_content llm content target_language =
     (if target_language = ''English'' then (content, [])
      else
        (case map_of language_map target_language of
           None \<Rightarrow> (content, [StError ''Translation error: '' (KeyError target_language)])
         | Some lang \<Rightarrow>
             (let req = translation_request lang content
              in case llm req of
                   Inl e \<Rightarrow> (content, [ChatCompletion req, StError ''Translation error: '' e])
                 | Inr txt \<Rightarrow> (py_strip txt, [ChatCompletion req]))))"

section \<open>The pipeline\<close>

text \<open>
  \<open>main\<close>, from the validation of the dates on. Before it, \<open>main\<close> checks the password and
  builds the generator (both stop the script on failure); the model starts behind them. The
  generator and the library functions the model takes as parameters are collected in
  \<open>services\<close>; the values of the widgets are the \<open>inputs\<close>.
\<close>

record 'f services =
  sv_ops :: "'f float_ops"
  sv_history :: "'f history_service"
  sv_config :: config
  sv_news :: news_service
  sv_benzinga_key :: string
  sv_llm :: completion_service
  sv_fromisoformat :: "string \<Rightarrow> parsed_time"
  sv_clock :: "nat \<Rightarrow> int"
  sv_renderer :: "'f renderer"

record inputs =
  input_start_date :: int
  input_end_date :: int
  input_language :: string
  input_themes_limit :: int
  input_generate_button :: bool

text \<open>What \<open>main\<close> stores in \<open>st.session_state.report_data\<close> (without the check-box settings).\<close>

record 'f report_data =
  rd_content :: string
  rd_start_date :: int
  rd_end_date :: int
  rd_language :: string
  rd_articles_count :: nat
  rd_themes_count :: nat
  rd_market_data :: "'f market_data"

text \<open>
  The ways \<open>main\<close> ends: the date error box and \<open>return\<close>; the button not pressed; the
  no-articles box and \<open>return\<close>; the report stored. The \<open>except\<close> of the generation block
  is not reached: every function called in it is total on the values of the model.
\<close>

datatype 'f outcome = DateError | NotRequested | NoArticles | ReportStored "'f report_data"

definition main :: "'f services \<Rightarrow> inputs \<Rightarrow> 'f outcome \<times> event list" where
  "main sv inp =
     (if input_start_date inp \<ge> input_end_date inp then (DateError, [DateErrorBox])
      else if \<not> input_generate_button inp then (NotRequested, [])
      else
        (let (market_data, events1) =
               get_market_data_by_range (sv_ops sv) (sv_history sv) (sv_config sv)
                 (input_start_date inp) (input_end_date inp);
             (articles, events2) =
               get_articles_by_date_range (sv_news sv) (sv_benzinga_key sv)
                 (input_start_date inp) (input_end_date inp)
         in if articles = [] then (NoArticles, events1 @ events2 @ [NoArticlesBox])
            else
              (let themes = categorize_news_themes articles;
                   key_stories =
                     extract_key_stories (sv_fromisoformat sv) (sv_clock sv) themes
                       (input_themes_limit inp);
                   (report_content, events3) =
                     generate_market_report (sv_llm sv) (sv_renderer sv) market_data key_stories
                       (input_start_date inp) (input_end_date inp);
                   (report_content, events4) =
                     (if input_language inp \<noteq> ''English''
                      then translate_content (sv_llm sv) report_content (input_language inp)
                      else (report_content, []))
               in (ReportStored
                     \<lparr> rd_content = report_content,
                       rd_start_date = input_start_date inp,
                       rd_end_date = input_end_date inp,
                       rd_language = input_language inp,
                       rd_articles_count = length articles,
                       rd_themes_count = length (filter (\<lambda>(t, a). a \<noteq> []) themes),
                       rd_market_data = market_data \<rparr>,
                   events1 @ events2 @ events3 @ events4))))"

text \<open>Fixtures: a renderer, services around the example providers, and inputs.\<close>

definition example_renderer :: "rat option renderer" where
  "example_renderer =
     \<lparr> performance_summary_of = (\<lambda>market_data start_date end_date. ''MARKET PERFORMANCE''),
       long_date = (\<lambda>d. ''day '' @ str_nat (nat d)),
       str_upper = ascii_upper,
       str_title = ascii_title \<rparr>"

definition example_services :: "news_service \<Rightarrow> completion_service \<Rightarrow> rat option services" where
  "example_services news llm =
     \<lparr> sv_ops = exact_ops,
       sv_history = example_history,
       sv_config = small_config,
       sv_news = news,
       sv_benzinga_key = ''key'',
       sv_llm = llm,
       sv_fromisoformat = example_fromisoformat,
       sv_clock = (\<lambda>n. 1714557600000000),
       sv_renderer = example_renderer \<rparr>"

definition example_inputs :: "int \<Rightarrow> int \<Rightarrow> inputs" where
  "example_inputs s e =
     \<lparr> input_start_date = s, input_end_date = e, input_language = ''English'',
       input_themes_limit = 3, input_generate_button = True \<rparr>"

definition failing_llm :: completion_service where
  "failing_llm req = Inl (ServiceError ''timed out'')"

definition echo_llm :: "string \<Rightarrow> completion_service" where
  "echo_llm txt req = Inr txt"


text \<open>A price provider that has one close for every instrument, as for a window of one day.\<close>

definition single_close_history :: "rat option history_service" where
  "single_close_history ticker start_date end_date = Inr [Some 4000]"
section \<open>Properties\<close>

subsection \<open>Strings\<close>

lemma py_in_sublist: "py_in sub t \<longleftrightarrow> sublist sub t"
  by (induction t) (auto simp: sublist_Cons_right)

lemma py_lower_char_idem: "py_lower_char (py_lower_char c) = py_lower_char c"
proof -
  define n where "n = (of_char c :: nat)"
  show ?thesis
  proof (cases "(65 \<le> n \<and> n \<le> 90) \<or> (192 \<le> n \<and> n \<le> 222 \<and> n \<noteq> 215)")
    case True
    then have l: "py_lower_char c = char_of (n + 32)"
      by (simp add: py_lower_char_def n_def [symmetric])
    have "(n + 32) mod 256 = n + 32" using True by auto
    then have "(of_char (char_of (n + 32) :: char) :: nat) = n + 32"
      by (simp add: of_char_of)
    then show ?thesis using True
      unfolding l by (auto simp: py_lower_char_def [of "char_of (n + 32)"] Let_def)
  next
    case False
    then have "py_lower_char c = c"
      by (auto simp: py_lower_char_def n_def [symmetric] Let_def)
    then show ?thesis by simp
  qed
qed

lemma sublist_map_iff: "sublist ys (map f xs) \<longleftrightarrow> (\<exists>u. sublist u xs \<and> map f u = ys)"
proof
  assume "sublist ys (map f xs)"
  then obtain ps ss where "map f xs = ps @ (ys @ ss)" by (auto simp: sublist_def)
  then obtain p r where 1: "xs = p @ r" "ys @ ss = map f r"
    unfolding map_eq_append_conv by blast
  from 1(2) [symmetric] obtain u s where 2: "r = u @ s" "ys = map f u"
    unfolding map_eq_append_conv by blast
  with 1 have "sublist u xs" by (auto simp: sublist_def)
  with 2 show "\<exists>u. sublist u xs \<and> map f u = ys" by blast
next
  assume "\<exists>u. sublist u xs \<and> map f u = ys"
  then show "sublist ys (map f xs)" using map_mono_sublist by blast
qed

lemma py_lower_append: "py_lower (s @ t) = py_lower s @ py_lower t"
  by (simp add: py_lower_def)

lemma ci_substring_py_in:
  "py_lower kw = kw \<Longrightarrow> ci_substring kw t \<longleftrightarrow> py_in kw (py_lower t)"
  by (simp add: ci_substring_def py_in_sublist py_lower_def sublist_map_iff)

lemma article_text_lower:
  "article_text a = py_lower (dict_get a ''title'' [] @ '' '' @ dict_get a ''teaser'' [])"
  by (simp add: article_text_def py_lower_def py_lower_char_def)

subsection \<open>Theme classifier\<close>


lemma map_of_dict_append:
  "map_of (dict_append l a th) k = (if k = l then map_option (\<lambda>b. b @ [a]) (map_of th k) else map_of th k)"
  by (simp add: dict_append_def map_of_map_entry split: option.splits)

lemma keys_dict_append: "map fst (dict_append l a th) = map fst th"
  unfolding dict_append_def by (induction th) auto

lemma map_of_theme_rule:
  "map_of (fst (theme_rule ws l a t st)) k =
     (if any_in ws t \<and> k = l then map_option (\<lambda>b. b @ [a]) (map_of (fst st) k) else map_of (fst st) k)"
  by (simp add: theme_rule_def map_of_dict_append)

lemma snd_theme_rule: "snd (theme_rule ws l a t st) = (snd st \<or> any_in ws t)"
  by (simp add: theme_rule_def)

lemma keys_theme_rule: "map fst (fst (theme_rule ws l a t st)) = map fst (fst st)"
  by (simp add: theme_rule_def keys_dict_append)

lemma keys_categorize_article: "map fst (categorize_article th a) = map fst th"
  by (simp add: categorize_article_def Let_def keys_theme_rule keys_dict_append)

lemma any_in_ci:
  "\<forall>kw \<in> set kws. py_lower kw = kw \<Longrightarrow> (\<exists>kw \<in> set kws. ci_substring kw t) \<longleftrightarrow> any_in kws (py_lower t)"
  by (auto simp: any_in_def list_ex_iff ci_substring_py_in)

lemma lower_kw: "py_lower [] = []" "py_lower (c # cs) = py_lower_char c # py_lower cs"
  by (simp_all add: py_lower_def)

lemma default_keywords_lower:
  "\<forall>(l, kws) \<in> set default_keyword_table. \<forall>kw \<in> set kws. py_lower kw = kw"
  unfolding default_keyword_table_def by (simp add: py_lower_def py_lower_char_def)


lemma matching_labels_any_in:
  assumes "\<forall>(l, kws) \<in> set T. \<forall>kw \<in> set kws. py_lower kw = kw"
  shows "matching_labels T t = {l. \<exists>kws. (l, kws) \<in> set T \<and> any_in kws (py_lower t)}"
proof -
  have "(\<exists>kw \<in> set kws. ci_substring kw t) \<longleftrightarrow> any_in kws (py_lower t)"
    if "(l, kws) \<in> set T" for l kws
    using assms that by (intro any_in_ci) auto
  then show ?thesis unfolding matching_labels_def by blast
qed

lemma matching_labels_default:
  "matching_labels default_keyword_table t =
     {l. \<exists>kws. (l, kws) \<in> set default_keyword_table \<and> any_in kws (py_lower t)}"
  by (rule matching_labels_any_in [OF default_keywords_lower])

lemma apply_rules_Nil: "apply_rules [] a t st = st"
  by (simp add: apply_rules_def)

lemma apply_rules_Cons:
  "apply_rules ((l, ws) # rules) a t st = apply_rules rules a t (theme_rule ws l a t st)"
  by (simp add: apply_rules_def)

lemma snd_apply_rules:
  "snd (apply_rules rules a t st) \<longleftrightarrow> snd st \<or> (\<exists>(l, ws) \<in> set rules. any_in ws t)"
proof (induction rules arbitrary: st)
  case Nil
  then show ?case by (simp add: apply_rules_Nil)
next
  case (Cons r rules)
  obtain l ws where r: "r = (l, ws)" by (cases r)
  show ?case
    unfolding r apply_rules_Cons Cons.IH snd_theme_rule by auto
qed

lemma map_of_apply_rules:
  "distinct (map fst rules) \<Longrightarrow>
   map_of (fst (apply_rules rules a t st)) k =
     (if \<exists>ws. (k, ws) \<in> set rules \<and> any_in ws t
      then map_option (\<lambda>b. b @ [a]) (map_of (fst st) k) else map_of (fst st) k)"
proof (induction rules arbitrary: st)
  case Nil
  then show ?case by (simp add: apply_rules_Nil)
next
  case (Cons r rules)
  obtain l ws where r: "r = (l, ws)" by (cases r)
  from Cons.prems have d: "distinct (map fst rules)" and n: "\<And>ws'. (l, ws') \<notin> set rules"
    by (auto simp: r rev_image_eqI)
  show ?case
    unfolding r apply_rules_Cons Cons.IH [OF d] map_of_theme_rule
    using n by auto
qed

lemma categorize_article_rules:
  "categorize_article th a =
     (let st = apply_rules default_keyword_table a (article_text a) (th, False)
      in if \<not> snd st then dict_append ''other'' a (fst st) else fst st)"
  by (simp add: categorize_article_def default_keyword_table_def apply_rules_def Let_def)

lemma spec_labels_default:
  "spec_labels default_keyword_table a =
     (let m = {l. \<exists>kws. (l, kws) \<in> set default_keyword_table \<and> any_in kws (article_text a)}
      in if m = {} then {''other''} else m)"
  by (simp only: spec_labels_def matching_labels_default article_text_lower Let_def)

lemma default_keyword_table_keys:
  "distinct (map fst default_keyword_table)" "\<And>ws. (''other'', ws) \<notin> set default_keyword_table"
  by (simp_all add: default_keyword_table_def)

lemma categorize_article_lookup:
  "map_of (categorize_article th a) k =
     (if k \<in> spec_labels default_keyword_table a
      then map_option (\<lambda>b. b @ [a]) (map_of th k) else map_of th k)"
proof -
  define T where "T = default_keyword_table"
  have d: "distinct (map fst T)" and o: "\<And>ws. (''other'', ws) \<notin> set T"
    unfolding T_def by (rule default_keyword_table_keys)+
  have s: "spec_labels default_keyword_table a =
      (if {l. \<exists>kws. (l, kws) \<in> set T \<and> any_in kws (article_text a)} = {} then {''other''}
       else {l. \<exists>kws. (l, kws) \<in> set T \<and> any_in kws (article_text a)})"
    unfolding spec_labels_default Let_def T_def ..
  have c: "categorize_article th a =
     (if \<not> snd (apply_rules T a (article_text a) (th, False))
      then dict_append ''other'' a (fst (apply_rules T a (article_text a) (th, False)))
      else fst (apply_rules T a (article_text a) (th, False)))"
    unfolding categorize_article_rules Let_def T_def ..
  show ?thesis
    unfolding c s using o
    by (auto simp: map_of_dict_append map_of_apply_rules [OF d] snd_apply_rules)
qed


lemma categorize_snoc:
  "categorize_news_themes (xs @ [x]) = categorize_article (categorize_news_themes xs) x"
  by (simp add: categorize_news_themes_def)

lemma keys_categorize: "map fst (categorize_news_themes arts) = map fst initial_themes"
  by (induction arts rule: rev_induct)
     (simp_all add: categorize_snoc keys_categorize_article, simp add: categorize_news_themes_def)

lemma map_of_empty_buckets:
  "\<forall>(k, v) \<in> set xs. v = [] \<Longrightarrow> map_of xs k = (if k \<in> fst ` set xs then Some [] else None)"
  by (induction xs) auto

lemma map_of_initial_themes:
  "map_of initial_themes k = (if k \<in> fst ` set initial_themes then Some [] else None)"
  by (rule map_of_empty_buckets) (simp add: initial_themes_def)

lemma categorize_buckets:
  "map_of (categorize_news_themes arts) k =
     (if k \<in> fst ` set initial_themes
      then Some (filter (\<lambda>a. k \<in> spec_labels default_keyword_table a) arts) else None)"
proof (induction arts rule: rev_induct)
  case Nil
  show ?case using map_of_initial_themes [of k] by (simp add: categorize_news_themes_def)
next
  case (snoc x xs)
  show ?case unfolding categorize_snoc categorize_article_lookup snoc.IH by simp
qed

lemma matching_labels_keys: "matching_labels T t \<subseteq> fst ` set T"
  by (force simp: matching_labels_def)

lemma spec_labels_keys: "spec_labels default_keyword_table a \<subseteq> fst ` set initial_themes"
proof -
  have "fst ` set default_keyword_table \<subseteq> fst ` set initial_themes"
    by (simp add: default_keyword_table_def initial_themes_def)
  moreover have "''other'' \<in> fst ` set initial_themes"
    by (simp add: initial_themes_def)
  moreover have "matching_labels default_keyword_table t \<subseteq> fst ` set default_keyword_table" for t
    by (rule matching_labels_keys)
  ultimately show ?thesis
    unfolding spec_labels_def Let_def by (simp split: if_splits) blast
qed

lemma set_labels_of:
  assumes "distinct (map fst themes)"
  shows "set (labels_of themes a) = {l. \<exists>b. map_of themes l = Some b \<and> a \<in> set b}"
proof -
  have "(l, b) \<in> set themes \<longleftrightarrow> map_of themes l = Some b" for l b
    using assms by simp
  then have "{l. \<exists>b. map_of themes l = Some b \<and> a \<in> set b}
      = fst ` {x \<in> set themes. a \<in> set (snd x)}"
    by force
  then show ?thesis
    by (simp add: labels_of_def case_prod_unfold)
qed

text \<open>
  C2. For every article of the fetched list, the theme labels the classifier files it under
  are exactly the labels of the rules of the default keyword table that have a keyword
  occurring, up to case, as a substring of the title, a blank and the teaser (every rule is
  judged on its own, so an article can carry several labels), and exactly the label
  \<open>other\<close> when no rule matches. The article "Fed signals new tariffs on China imports"
  gets exactly \<open>fed_policy\<close>, \<open>trade_tensions\<close> and \<open>china_sea\<close>.
\<close>

theorem categorize_news_themes_multi_label:
  "(article \<in> set articles \<longrightarrow>
      set (labels_of (categorize_news_themes articles) article)
        = spec_labels default_keyword_table article)
   \<and> (fed_article \<in> set articles \<longrightarrow>
      set (labels_of (categorize_news_themes articles) fed_article)
        = {''fed_policy'', ''trade_tensions'', ''china_sea''})"
proof -
  have general: "set (labels_of (categorize_news_themes arts) a) = spec_labels default_keyword_table a"
    if a: "a \<in> set arts" for a arts
  proof -
    have d: "distinct (map fst (categorize_news_themes arts))"
      unfolding keys_categorize by (simp add: initial_themes_def)
    show ?thesis
      unfolding set_labels_of [OF d] categorize_buckets
      using a spec_labels_keys [of a] by auto
  qed
  have "labels_of (categorize_news_themes [fed_article]) fed_article
          = [''fed_policy'', ''trade_tensions'', ''china_sea'']"
    by code_simp
  then have "set (labels_of (categorize_news_themes [fed_article]) fed_article)
          = {''fed_policy'', ''trade_tensions'', ''china_sea''}"
    by simp
  with general [of fed_article "[fed_article]"]
  have fed: "spec_labels default_keyword_table fed_article
          = {''fed_policy'', ''trade_tensions'', ''china_sea''}"
    by simp
  show ?thesis using general [of article articles] general [of fed_article articles] fed
    by simp
qed

theorem categorize_news_themes_multi_label_witness:
  "set (labels_of (categorize_news_themes [fed_article, quiet_article]) quiet_article)
     = spec_labels default_keyword_table quiet_article
   \<and> labels_of (categorize_news_themes [fed_article, quiet_article]) quiet_article = [''other'']
   \<and> set (labels_of (categorize_news_themes [fed_article, quiet_article]) fed_article)
     = {''fed_policy'', ''trade_tensions'', ''china_sea''}"
proof -
  have m: "quiet_article \<in> set [fed_article, quiet_article]"
    "fed_article \<in> set [fed_article, quiet_article]"
    by simp_all
  have e: "labels_of (categorize_news_themes [fed_article, quiet_article]) quiet_article = [''other'']"
    by code_simp
  from categorize_news_themes_multi_label [of quiet_article "[fed_article, quiet_article]"] m e
  show ?thesis by simp
qed

subsection \<open>Importance scorer\<close>

lemma sum_if_in_count:
  "distinct ws \<Longrightarrow> sum_if_in w ws t = w * int (card {x \<in> set ws. sublist x t})"
proof -
  assume d: "distinct ws"
  have "sum_if_in w ws t = w * int (length (filter (\<lambda>x. py_in x t) ws))"
    unfolding sum_if_in_def by (induction ws) (auto simp: algebra_simps)
  also have "length (filter (\<lambda>x. py_in x t) ws) = card (set (filter (\<lambda>x. py_in x t) ws))"
    using d by (simp only: distinct_card distinct_filter)
  finally show ?thesis by (simp add: py_in_sublist)
qed

lemma article_text_fields:
  "article_text article =
     map py_lower_char (case map_of article ''title'' of None \<Rightarrow> [] | Some v \<Rightarrow> v) @ '' '' @
     map py_lower_char (case map_of article ''teaser'' of None \<Rightarrow> [] | Some v \<Rightarrow> v)"
  by (simp add: article_text_def dict_get_def py_lower_def Let_def)

lemma lexical_score:
  "sum_if_in 5 major_companies (article_text article)
   + sum_if_in 3 impact_words (article_text article)
   + sum_if_in 4 urgent_words (article_text article) =
     (let title = (case map_of article ''title'' of None \<Rightarrow> [] | Some v \<Rightarrow> v);
          teaser = (case map_of article ''teaser'' of None \<Rightarrow> [] | Some v \<Rightarrow> v);
          lowered = map py_lower_char title @ '' '' @ map py_lower_char teaser;
          occurring = (\<lambda>ws. int (card {w \<in> set ws. sublist w lowered}))
      in 5 * occurring [''apple'', ''microsoft'', ''google'', ''amazon'', ''tesla'', ''meta'', ''nvidia'']
       + 3 * occurring [''billion'', ''million'', ''record'', ''historic'', ''breakthrough'', ''crisis'']
       + 4 * occurring [''breaking'', ''just in'', ''urgent'', ''alert''])"
proof -
  have d: "distinct major_companies" "distinct impact_words" "distinct urgent_words"
    by (simp_all add: major_companies_def impact_words_def urgent_words_def)
  show ?thesis
    unfolding sum_if_in_count [OF d(1)] sum_if_in_count [OF d(2)] sum_if_in_count [OF d(3)]
      article_text_fields Let_def
    unfolding major_companies_def impact_words_def urgent_words_def ..
qed

lemma created_field:
  "replace_Z (dict_get article ''created'' []) =
     concat (map (\<lambda>c. if c = CHR ''Z'' then ''+00:00'' else [c])
               (case map_of article ''created'' of None \<Rightarrow> [] | Some v \<Rightarrow> v))"
  by (simp add: replace_Z_def dict_get_def)

lemma score_parts:
  "score_article_importance fromisoformat now article =
     sum_if_in 5 major_companies (article_text article)
   + sum_if_in 3 impact_words (article_text article)
   + sum_if_in 4 urgent_words (article_text article)
   + recency_bonus fromisoformat now article"
  by (simp add: score_article_importance_def Let_def)

text \<open>
  C4, as the code has it. For every article, the importance score is a plain sum, with no
  normalisation: 5 for each of the major companies (apple, microsoft, google, amazon,
  tesla, meta, nvidia) whose name occurs in the lower-cased title, a blank and the
  lower-cased teaser; 3 for each impact keyword (billion, million, record, historic,
  breakthrough, crisis) that occurs there; 4 for each urgency keyword (breaking, just in,
  urgent, alert) that occurs there; and a flat 5 when the \<open>created\<close> field, with every
  \<open>Z\<close> replaced by \<open>+00:00\<close>, parses to a datetime with a UTC offset that lies less
  than 24 hours before the wall clock read at scoring time, or after it. A field that is
  missing, does not parse, or parses to a datetime without an offset gives no bonus.
\<close>

theorem score_article_importance_additive:
  "score_article_importance fromisoformat now article =
     (let title = (case map_of article ''title'' of None \<Rightarrow> [] | Some v \<Rightarrow> v);
          teaser = (case map_of article ''teaser'' of None \<Rightarrow> [] | Some v \<Rightarrow> v);
          created = (case map_of article ''created'' of None \<Rightarrow> [] | Some v \<Rightarrow> v);
          lowered = map py_lower_char title @ '' '' @ map py_lower_char teaser;
          occurring = (\<lambda>ws. int (card {w \<in> set ws. sublist w lowered}))
      in 5 * occurring [''apple'', ''microsoft'', ''google'', ''amazon'', ''tesla'', ''meta'', ''nvidia'']
       + 3 * occurring [''billion'', ''million'', ''record'', ''historic'', ''breakthrough'', ''crisis'']
       + 4 * occurring [''breaking'', ''just in'', ''urgent'', ''alert'']
       + (case fromisoformat (concat (map (\<lambda>c. if c = CHR ''Z'' then ''+00:00'' else [c]) created)) of
            Aware created_time \<Rightarrow> if now - created_time < 86400000000 then 5 else 0
          | Naive created_time \<Rightarrow> 0
          | ValueError \<Rightarrow> 0))"
proof -
  have b: "recency_bonus fromisoformat now article =
     (case fromisoformat (concat (map (\<lambda>c. if c = CHR ''Z'' then ''+00:00'' else [c])
               (case map_of article ''created'' of None \<Rightarrow> [] | Some v \<Rightarrow> v))) of
            Aware created_time \<Rightarrow> if now - created_time < 86400000000 then 5 else 0
          | Naive created_time \<Rightarrow> 0
          | ValueError \<Rightarrow> 0)"
    unfolding recency_bonus_def created_field by (simp split: parsed_time.splits)
  show ?thesis
    unfolding score_parts lexical_score b by (simp only: Let_def)
qed

lemma claimed_score_parts:
  "claimed_score fromisoformat now article =
     sum_if_in 5 major_companies (article_text article)
   + sum_if_in 3 impact_words (article_text article)
   + sum_if_in 4 urgent_words (article_text article)
   + (case fromisoformat (replace_Z (dict_get article ''created'' [])) of
        Aware created_time \<Rightarrow> if now - created_time < 86400000000 then 5 else 0
      | Naive created_time \<Rightarrow> if now - created_time < 86400000000 then 5 else 0
      | ValueError \<Rightarrow> 0)"
  unfolding lexical_score created_field claimed_score_def by (simp only: Let_def)

text \<open>
  The score as the specification words it gives the bonus to every article whose creation
  timestamp is less than 24 hours old. The code does not: for a timestamp written without
  an offset the subtraction from the clock raises \<open>TypeError\<close>, which the bare
  \<open>except\<close> swallows. An article created one hour before the evaluation time, with the
  timestamp \<open>2024-05-01T10:00:00\<close>, scores 5 where the specification's wording gives 10.
\<close>

theorem score_article_importance_naive_counterexample:
  "score_article_importance example_fromisoformat (1714557600000000 + 3600000000) naive_article = 5
   \<and> claimed_score example_fromisoformat (1714557600000000 + 3600000000) naive_article = 10
   \<and> score_article_importance example_fromisoformat (1714557600000000 + 3600000000) naive_article
       \<noteq> claimed_score example_fromisoformat (1714557600000000 + 3600000000) naive_article"
proof -
  have s: "score_article_importance example_fromisoformat (1714557600000000 + 3600000000) naive_article = 5"
    by code_simp
  have l: "sum_if_in 5 major_companies (article_text naive_article)
   + sum_if_in 3 impact_words (article_text naive_article)
   + sum_if_in 4 urgent_words (article_text naive_article) = 5"
    by code_simp
  have p: "example_fromisoformat (replace_Z (dict_get naive_article ''created'' []))
             = Naive 1714557600000000"
    by code_simp
  have c: "claimed_score example_fromisoformat (1714557600000000 + 3600000000) naive_article = 10"
    unfolding claimed_score_parts l p by simp
  from s c show ?thesis by simp
qed

text \<open>
  The theorem at an article with two companies, two impact keywords, one urgency keyword
  and a timestamp one hour old: 25. An article dated one hour after the evaluation time
  gets the bonus too.
\<close>

theorem score_article_importance_additive_witness:
  "score_article_importance example_fromisoformat (1714557600000000 + 3600000000) breaking_article = 25
   \<and> 5 * int (card {w \<in> set [''apple'', ''microsoft'', ''google'', ''amazon'', ''tesla'', ''meta'', ''nvidia''].
                     sublist w ''breaking: apple and microsoft post record results a billion in profit''})
     + 3 * int (card {w \<in> set [''billion'', ''million'', ''record'', ''historic'', ''breakthrough'', ''crisis''].
                     sublist w ''breaking: apple and microsoft post record results a billion in profit''})
     + 4 * int (card {w \<in> set [''breaking'', ''just in'', ''urgent'', ''alert''].
                     sublist w ''breaking: apple and microsoft post record results a billion in profit''})
     + 5 = 25
   \<and> score_article_importance example_fromisoformat (1714557600000000 - 3600000000) future_article = 5"
proof -
  have s: "score_article_importance example_fromisoformat (1714557600000000 + 3600000000)
             breaking_article = 25"
    by code_simp
  have f: "score_article_importance example_fromisoformat (1714557600000000 - 3600000000)
             future_article = 5"
    by code_simp
  have t: "map py_lower_char (case map_of breaking_article ''title'' of None \<Rightarrow> [] | Some v \<Rightarrow> v)
             @ '' '' @
           map py_lower_char (case map_of breaking_article ''teaser'' of None \<Rightarrow> [] | Some v \<Rightarrow> v)
           = ''breaking: apple and microsoft post record results a billion in profit''"
    by code_simp
  have p: "example_fromisoformat (concat (map (\<lambda>c. if c = CHR ''Z'' then ''+00:00'' else [c])
               (case map_of breaking_article ''created'' of None \<Rightarrow> [] | Some v \<Rightarrow> v)))
             = Aware 1714557600000000"
    by code_simp
  from score_article_importance_additive
         [of example_fromisoformat "1714557600000000 + 3600000000" breaking_article]
  show ?thesis unfolding Let_def t p s using f by simp
qed

subsection \<open>Extractor\<close>

lemma map_fst_score_articles: "map fst (score_articles f clock n arts) = arts"
  by (induction arts arbitrary: n) auto

lemma length_score_articles: "length (score_articles f clock n arts) = length arts"
  by (induction arts arbitrary: n) auto

lemma nth_score_articles:
  "i < length arts \<Longrightarrow>
   score_articles f clock n arts ! i = (arts ! i, score_article_importance f (clock (n + i)) (arts ! i))"
proof (induction arts arbitrary: n i)
  case Nil then show ?case by simp
next
  case (Cons a arts) then show ?case by (cases i) auto
qed

lemma ranked_sort_reverse: "ranked_by_score xs (sort_reverse snd xs)"
proof -
  have "sorted_wrt (\<lambda>x y. snd x \<ge> snd y) (rev (sort_key snd (rev xs)))"
    using sorted_sort_key [of snd "rev xs"]
    by (simp add: sorted_wrt_rev sorted_map)
  moreover have "filter (\<lambda>x. snd x = s) (rev (sort_key snd (rev xs))) = filter (\<lambda>x. snd x = s) xs" for s
    by (simp add: rev_filter [symmetric] sort_key_stable)
  ultimately show ?thesis
    unfolding ranked_by_score_def sort_reverse_def by simp
qed

lemma ranked_unique:
  assumes "ranked_by_score xs ys"
  shows "ys = sort_reverse snd xs"
proof -
  have "sort_key (\<lambda>x. - snd x) xs = zs" if "ranked_by_score xs zs" for zs
  proof (rule properties_for_sort_key)
    show "mset zs = mset xs" using that by (simp add: ranked_by_score_def)
    show "filter (\<lambda>x. - snd k = - snd x) zs = filter (\<lambda>x. - snd k = - snd x) xs" for k
      using that unfolding ranked_by_score_def
      by (metis (mono_tags, lifting) filter_cong neg_equal_iff_equal)
    show "sorted (map (\<lambda>x. - snd x) zs)"
      using that by (simp add: ranked_by_score_def sorted_map)
  qed
  from this [OF assms] this [OF ranked_sort_reverse] show ?thesis by simp
qed


lemma calls_before_Cons:
  "calls_before ((k, b) # rest) t = (if k = t then 0 else length b + calls_before rest t)"
  by (simp add: calls_before_def)

lemma extract_loop_lookup:
  "distinct (map fst themes) \<Longrightarrow>
   map_of (extract_loop f clock K themes (ks, n)) t =
     (case map_of themes t of
        None \<Rightarrow> map_of ks t
      | Some b \<Rightarrow>
          if b = [] then map_of ks t
          else Some (map fst (slice_to K (sort_reverse snd
                 (score_articles f clock (n + calls_before themes t) b)))))"
proof (induction themes arbitrary: ks n)
  case Nil
  then show ?case by simp
next
  case (Cons kb rest)
  obtain k b where kb: "kb = (k, b)" by (cases kb)
  from Cons.prems have d: "distinct (map fst rest)" and nk: "map_of rest k = None"
    by (auto simp: kb map_of_eq_None_iff)
  show ?case
  proof (cases "t = k")
    case True
    have nt: "map_of rest t = None" using nk True by simp
    show ?thesis
      unfolding kb True [symmetric]
      by (simp add: Cons.IH [OF d] nt calls_before_Cons Let_def update_conv')
  next
    case False
    then show ?thesis
      unfolding kb
      by (auto simp: Cons.IH [OF d] calls_before_Cons Let_def update_conv' add.assoc
               split: option.splits)
  qed
qed

lemma length_slice_to: "0 \<le> K \<Longrightarrow> length (slice_to K xs) \<le> nat K"
  by (simp add: slice_to_def)

lemma slice_to_take: "0 \<le> K \<Longrightarrow> slice_to K xs = take (nat K) xs"
  by (simp add: slice_to_def)

text \<open>
  C3. For every theme-bucket map (a dictionary: one bucket per theme) and every limit
  \<open>K \<ge> 0\<close>: a theme with a non-empty bucket is mapped to the first \<open>K\<close> articles of its
  bucket ranked by descending score, ties keeping the order of the bucket (so two articles
  with equal scores appear in fetch order); no theme gets more than \<open>K\<close> articles; a theme
  whose bucket is empty, or that the map does not have, has no entry. The scores are the
  ones the extractor computed: \<open>score_articles\<close> pairs the articles of the bucket, in
  order, each with the scorer's value at the clock of its call.
\<close>

theorem extract_key_stories_top_k:
  assumes "distinct (map fst themes)" and "0 \<le> K"
  shows
    "(map_of themes theme = None \<longrightarrow> map_of (extract_key_stories f clock themes K) theme = None)
     \<and> (map_of themes theme = Some [] \<longrightarrow> map_of (extract_key_stories f clock themes K) theme = None)
     \<and> (\<forall>bucket. map_of themes theme = Some bucket \<longrightarrow> bucket \<noteq> [] \<longrightarrow>
           map fst (score_articles f clock (calls_before themes theme) bucket) = bucket
           \<and> (\<exists>ranked.
                 ranked_by_score (score_articles f clock (calls_before themes theme) bucket) ranked
                 \<and> map_of (extract_key_stories f clock themes K) theme
                      = Some (map fst (take (nat K) ranked))))
     \<and> (\<forall>stories. map_of (extract_key_stories f clock themes K) theme = Some stories \<longrightarrow>
           length stories \<le> nat K)"
proof -
  have r: "ranked_by_score (score_articles f clock n b) (sort_reverse snd (score_articles f clock n b))"
    for n b
    by (rule ranked_sort_reverse)
  show ?thesis
    unfolding extract_key_stories_def extract_loop_lookup [OF assms(1)]
    using assms(2) r
    by (auto split: option.splits if_splits simp: slice_to_take map_fst_score_articles)
qed

theorem extract_key_stories_top_k_witness:
  "extract_key_stories example_fromisoformat (\<lambda>n. 0) example_buckets 3
     = [(''tech_developments'', [apple_article, tesla_article, plain_article])]
   \<and> map_of (extract_key_stories example_fromisoformat (\<lambda>n. 0) example_buckets 3) ''crypto'' = None
   \<and> (\<exists>ranked.
         ranked_by_score (score_articles example_fromisoformat (\<lambda>n. 0) 0
            [plain_article, apple_article, quiet_article, tesla_article]) ranked
         \<and> map_of (extract_key_stories example_fromisoformat (\<lambda>n. 0) example_buckets 3)
              ''tech_developments'' = Some (map fst (take 3 ranked)))"
proof -
  have d: "distinct (map fst example_buckets)" and k: "(0::int) \<le> 3"
    by (simp_all add: example_buckets_def)
  have e: "extract_key_stories example_fromisoformat (\<lambda>n. 0) example_buckets 3
     = [(''tech_developments'', [apple_article, tesla_article, plain_article])]"
    by code_simp
  have m: "map_of example_buckets ''crypto'' = Some []"
    "map_of example_buckets ''tech_developments''
       = Some [plain_article, apple_article, quiet_article, tesla_article]"
    "[plain_article, apple_article, quiet_article, tesla_article] \<noteq> []"
    "calls_before example_buckets ''tech_developments'' = 0"
    by (simp_all add: example_buckets_def calls_before_def)
  note t = extract_key_stories_top_k [OF d k, of _ example_fromisoformat "\<lambda>n. 0"]
  from t [of "''crypto''"] m(1) have c: "map_of (extract_key_stories example_fromisoformat (\<lambda>n. 0) example_buckets 3) ''crypto'' = None"
    by blast
  from t [of "''tech_developments''"] m(2,3)
  have "\<exists>ranked.
         ranked_by_score (score_articles example_fromisoformat (\<lambda>n. 0)
            (calls_before example_buckets ''tech_developments'')
            [plain_article, apple_article, quiet_article, tesla_article]) ranked
         \<and> map_of (extract_key_stories example_fromisoformat (\<lambda>n. 0) example_buckets 3)
              ''tech_developments'' = Some (map fst (take (nat 3) ranked))"
    by blast
  with m(4) e c show ?thesis by simp
qed

subsection \<open>Market performance aggregator\<close>

lemma fetch_loop_lookup:
  "distinct (map key items) \<Longrightarrow>
   map_of (fst (fetch_loop ops h s e key entry items (d, ev))) t =
     (case find (\<lambda>i. key i = t) items of
        None \<Rightarrow> map_of d t
      | Some item \<Rightarrow>
          (case observed ops h s e t of
             None \<Rightarrow> map_of d t
           | Some p \<Rightarrow> Some (entry item p)))"
proof (induction items arbitrary: d ev)
  case Nil
  then show ?case by simp
next
  case (Cons item rest)
  from Cons.prems have dr: "distinct (map key rest)" by simp
  show ?case
  proof (cases "key item = t")
    case True
    from Cons.prems have "key item \<notin> key ` set rest" by simp
    then have nf: "find (\<lambda>i. key i = t) rest = None"
      unfolding find_None_iff True [symmetric] by (auto simp: image_iff)
    show ?thesis
      unfolding True [symmetric]
      using nf [unfolded True [symmetric]]
      by (simp add: Cons.IH [OF dr, of _ _, unfolded True [symmetric]] observed_def update_conv'
               split: sum.splits option.splits)
  next
    case False
    then show ?thesis
      by (simp add: Cons.IH [OF dr] observed_def update_conv' split: sum.splits option.splits)
  qed
qed

lemma find_fst:
  "find (\<lambda>i. fst i = t) xs = map_option (\<lambda>v. (t, v)) (map_of xs t)"
  by (induction xs) auto

lemma find_id:
  "find (\<lambda>i. i = t) xs = (if t \<in> set xs then Some t else None)"
  by (induction xs) auto

lemma index_loop_fetch:
  "index_loop ops h s e items st =
     fetch_loop ops h s e fst
       (\<lambda>item p. IndexEntry \<lparr> idx_name = snd item,
                               idx_current_price = round2 ops (fst (snd p)),
                               idx_change_pct = round2 ops (snd (snd p)),
                               idx_start_price = round2 ops (fst p) \<rparr>) items st"
proof (induction items arbitrary: st)
  case Nil
  then show ?case by simp
next
  case (Cons item rest)
  obtain ticker name where i: "item = (ticker, name)" by (cases item)
  obtain md ev where s: "st = (md, ev)" by (cases st)
  show ?case unfolding i s
    by (simp add: Cons.IH split: sum.splits option.splits prod.splits)
qed

lemma sector_loop_fetch:
  "sector_loop ops h s e items st =
     fetch_loop ops h s e fst
       (\<lambda>item p. \<lparr> sec_name = snd item, sec_change_pct = round2 ops (snd (snd p)) \<rparr>) items st"
proof (induction items arbitrary: st)
  case Nil
  then show ?case by simp
next
  case (Cons item rest)
  obtain ticker name where i: "item = (ticker, name)" by (cases item)
  obtain md ev where s: "st = (md, ev)" by (cases st)
  show ?case unfolding i s
    by (simp add: Cons.IH split: sum.splits option.splits prod.splits)
qed

lemma stock_loop_fetch:
  "stock_loop ops h s e items st =
     fetch_loop ops h s e (\<lambda>ticker. ticker)
       (\<lambda>item p. \<lparr> stk_change_pct = round2 ops (snd (snd p)),
                    stk_current_price = round2 ops (fst (snd p)) \<rparr>) items st"
proof (induction items arbitrary: st)
  case Nil
  then show ?case by simp
next
  case (Cons item rest)
  obtain md ev where s: "st = (md, ev)" by (cases st)
  show ?case unfolding s
    by (simp add: Cons.IH split: sum.splits option.splits prod.splits)
qed

lemma index_loop_lookup:
  assumes "distinct (map fst items)"
  shows "map_of (fst (index_loop ops h s e items ([], ev))) t =
     (case map_of items t of
        None \<Rightarrow> None
      | Some name \<Rightarrow>
          (case observed ops h s e t of
             None \<Rightarrow> None
           | Some (start_price, end_price, change_pct) \<Rightarrow>
               Some (IndexEntry \<lparr> idx_name = name,
                                  idx_current_price = round2 ops end_price,
                                  idx_change_pct = round2 ops change_pct,
                                  idx_start_price = round2 ops start_price \<rparr>)))"
  unfolding index_loop_fetch fetch_loop_lookup [OF assms] find_fst
  by (simp split: option.splits prod.splits)

lemma sector_loop_lookup:
  assumes "distinct (map fst items)"
  shows "map_of (fst (sector_loop ops h s e items ([], ev))) t =
     (case map_of items t of
        None \<Rightarrow> None
      | Some name \<Rightarrow>
          (case observed ops h s e t of
             None \<Rightarrow> None
           | Some (start_price, end_price, change_pct) \<Rightarrow>
               Some \<lparr> sec_name = name, sec_change_pct = round2 ops change_pct \<rparr>))"
  unfolding sector_loop_fetch fetch_loop_lookup [OF assms] find_fst
  by (simp split: option.splits prod.splits)

lemma stock_loop_lookup:
  assumes "distinct items"
  shows "map_of (fst (stock_loop ops h s e items ([], ev))) t =
     (if t \<in> set items
      then (case observed ops h s e t of
              None \<Rightarrow> None
            | Some (start_price, end_price, change_pct) \<Rightarrow>
                Some \<lparr> stk_change_pct = round2 ops change_pct,
                       stk_current_price = round2 ops end_price \<rparr>)
      else None)"
proof -
  have d: "distinct (map (\<lambda>ticker. ticker) items)" using assms by simp
  show ?thesis
    unfolding stock_loop_fetch fetch_loop_lookup [OF d] find_id
    by (simp split: option.splits prod.splits)
qed

lemma fetch_loop_events:
  "fst (fetch_loop ops h s e key entry items (d, ev)) = fst (fetch_loop ops h s e key entry items (d, []))"
proof (induction items arbitrary: d ev)
  case Nil
  then show ?case by simp
next
  case (Cons item rest)
  have step: "fst (fetch_loop ops h s e key entry rest (d', ev')) =
              fst (fetch_loop ops h s e key entry rest (d', ev''))" for d' ev' ev''
    using Cons.IH [of d' ev'] Cons.IH [of d' ev''] by simp
  show ?case
  proof (cases "h (key item) s (e + 1)")
    case (Inl exc)
    then show ?thesis by (simp only: fetch_loop.simps sum.case append_Nil) (rule step)
  next
    case (Inr hist)
    then show ?thesis
      by (cases "price_change ops hist")
         (simp_all only: fetch_loop.simps sum.case option.case append_Nil, (rule step)+)
  qed
qed

lemma get_market_data_parts:
  "fst (get_market_data_by_range ops h cfg s e) =
     AList.update ''stocks''
       (StockData (fst (stock_loop ops h s e (major_stocks cfg @ sea_stocks cfg) ([], []))))
       (AList.update ''sectors''
          (SectorData (fst (sector_loop ops h s e (sector_etfs cfg) ([], []))))
          (fst (index_loop ops h s e (market_indices cfg) ([], []))))"
proof -
  define ev1 where "ev1 = snd (index_loop ops h s e (market_indices cfg) ([], []))"
  define ev2 where "ev2 = snd (sector_loop ops h s e (sector_etfs cfg) ([], ev1))"
  have a: "fst (sector_loop ops h s e (sector_etfs cfg) ([], ev1))
         = fst (sector_loop ops h s e (sector_etfs cfg) ([], []))"
    unfolding sector_loop_fetch by (rule fetch_loop_events)
  have b: "fst (stock_loop ops h s e (major_stocks cfg @ sea_stocks cfg) ([], ev2))
         = fst (stock_loop ops h s e (major_stocks cfg @ sea_stocks cfg) ([], []))"
    unfolding stock_loop_fetch by (rule fetch_loop_events)
  have "fst (get_market_data_by_range ops h cfg s e) =
     AList.update ''stocks''
       (StockData (fst (stock_loop ops h s e (major_stocks cfg @ sea_stocks cfg) ([], ev2))))
       (AList.update ''sectors''
          (SectorData (fst (sector_loop ops h s e (sector_etfs cfg) ([], ev1))))
          (fst (index_loop ops h s e (market_indices cfg) ([], []))))"
    unfolding get_market_data_by_range_def Let_def case_prod_unfold ev1_def ev2_def
    by (simp only: fst_conv)
  then show ?thesis by (simp only: a b)
qed

lemma observed_cases:
  "observed ops h s e t =
     (case h t s (e + 1) of
        Inl exc \<Rightarrow> None
      | Inr hist \<Rightarrow>
          if 2 \<le> length hist
          then Some (hd hist, last hist, change_pct_of ops (hd hist) (last hist))
          else None)"
  by (auto simp: observed_def price_change_def Let_def split: sum.splits)

lemma observed_succeeded: "observed ops h s e t \<noteq> None \<longleftrightarrow> succeeded h s e t"
  by (simp add: observed_cases succeeded_def split: sum.splits)

lemma map_of_market_data:
  "map_of (fst (get_market_data_by_range ops h cfg s e)) =
     (map_of (fst (index_loop ops h s e (market_indices cfg) ([], []))))
       (''sectors'' \<mapsto> SectorData (fst (sector_loop ops h s e (sector_etfs cfg) ([], []))),
        ''stocks'' \<mapsto> StockData (fst (stock_loop ops h s e (major_stocks cfg @ sea_stocks cfg) ([], []))))"
  unfolding get_market_data_parts by (simp add: update_conv')

lemma fetch_loop_nothing:
  "\<forall>item \<in> set items. observed ops h s e (key item) = None \<Longrightarrow>
   fst (fetch_loop ops h s e key entry items (d, ev)) = d"
proof (induction items arbitrary: ev)
  case Nil
  then show ?case by simp
next
  case (Cons item rest)
  then have o: "observed ops h s e (key item) = None"
    and r: "\<forall>item \<in> set rest. observed ops h s e (key item) = None"
    by simp_all
  from o show ?case
    by (auto simp: observed_def Cons.IH [OF r] split: sum.splits)
qed

lemma dom_index_loop:
  assumes "distinct (map fst items)"
  shows "fst ` set (fst (index_loop ops h s e items ([], ev)))
           = {t \<in> fst ` set items. succeeded h s e t}"
proof -
  have "dom (map_of (fst (index_loop ops h s e items ([], ev))))
          = {t \<in> dom (map_of items). succeeded h s e t}"
    unfolding dom_def index_loop_lookup [OF assms]
    by (auto split: option.splits simp: observed_succeeded [of ops, symmetric])
  then show ?thesis by (simp add: dom_map_of_conv_image_fst)
qed

lemma dom_sector_loop:
  assumes "distinct (map fst items)"
  shows "fst ` set (fst (sector_loop ops h s e items ([], ev)))
           = {t \<in> fst ` set items. succeeded h s e t}"
proof -
  have "dom (map_of (fst (sector_loop ops h s e items ([], ev))))
          = {t \<in> dom (map_of items). succeeded h s e t}"
    unfolding dom_def sector_loop_lookup [OF assms]
    by (auto split: option.splits simp: observed_succeeded [of ops, symmetric])
  then show ?thesis by (simp add: dom_map_of_conv_image_fst)
qed

lemma dom_stock_loop:
  assumes "distinct items"
  shows "fst ` set (fst (stock_loop ops h s e items ([], ev)))
           = {t \<in> set items. succeeded h s e t}"
proof -
  have "dom (map_of (fst (stock_loop ops h s e items ([], ev))))
          = {t \<in> set items. succeeded h s e t}"
    unfolding dom_def stock_loop_lookup [OF assms]
    by (auto split: option.splits simp: observed_succeeded [of ops, symmetric])
  then show ?thesis by (simp add: dom_map_of_conv_image_fst)
qed

lemma config_ok_small: "config_ok small_config"
  by (simp add: config_ok_def small_config_def)

lemma group_keys_not_index:
  assumes "config_ok cfg" and "map_of (market_indices cfg) ticker = Some name"
  shows "ticker \<noteq> ''sectors''" and "ticker \<noteq> ''stocks''"
proof -
  from assms(2) have "ticker \<in> fst ` set (market_indices cfg)"
    by (metis domI dom_map_of_conv_image_fst)
  with assms(1) show "ticker \<noteq> ''sectors''" and "ticker \<noteq> ''stocks''"
    unfolding config_ok_def by blast+
qed

text \<open>
  C1. For every instrument of the configuration whose fetched price history has at least
  two observations, the aggregator records a \<open>change_pct\<close> equal to
  \<open>(end_price - start_price) / start_price * 100\<close> rounded to 2 decimal places, where
  \<open>start_price\<close> is the first close and \<open>end_price\<close> the last; an instrument whose
  history is empty or has one observation (or whose fetch raises) has no entry at all.
  With exact arithmetic, start 100.00 and end 110.00 give 10.00, and start 4000 and end
  4100 give 2.50.
\<close>

theorem get_market_data_by_range_change_pct:
  assumes "config_ok cfg"
  shows
    "(\<forall>ticker name. map_of (market_indices cfg) ticker = Some name \<longrightarrow>
        map_of (fst (get_market_data_by_range ops history cfg s e)) ticker =
          (case history ticker s (e + 1) of
             Inl exc \<Rightarrow> None
           | Inr hist \<Rightarrow>
               if 2 \<le> length hist
               then Some (IndexEntry
                      \<lparr> idx_name = name,
                        idx_current_price = round2 ops (last hist),
                        idx_change_pct =
                          round2 ops (fmul ops (fdiv ops (fsub ops (last hist) (hd hist)) (hd hist))
                                        (hundred ops)),
                        idx_start_price = round2 ops (hd hist) \<rparr>)
               else None))
     \<and> (\<exists>sectors stocks.
           map_of (fst (get_market_data_by_range ops history cfg s e)) ''sectors''
             = Some (SectorData sectors)
         \<and> map_of (fst (get_market_data_by_range ops history cfg s e)) ''stocks''
             = Some (StockData stocks)
         \<and> (\<forall>ticker name. map_of (sector_etfs cfg) ticker = Some name \<longrightarrow>
               map_of sectors ticker =
                 (case history ticker s (e + 1) of
                    Inl exc \<Rightarrow> None
                  | Inr hist \<Rightarrow>
                      if 2 \<le> length hist
                      then Some \<lparr> sec_name = name,
                                  sec_change_pct =
                                    round2 ops (fmul ops (fdiv ops (fsub ops (last hist) (hd hist)) (hd hist))
                                                  (hundred ops)) \<rparr>
                      else None))
         \<and> (\<forall>ticker. ticker \<in> set (major_stocks cfg @ sea_stocks cfg) \<longrightarrow>
               map_of stocks ticker =
                 (case history ticker s (e + 1) of
                    Inl exc \<Rightarrow> None
                  | Inr hist \<Rightarrow>
                      if 2 \<le> length hist
                      then Some \<lparr> stk_change_pct =
                                    round2 ops (fmul ops (fdiv ops (fsub ops (last hist) (hd hist)) (hd hist))
                                                  (hundred ops)),
                                  stk_current_price = round2 ops (last hist) \<rparr>
                      else None)))
     \<and> round2 exact_ops (change_pct_of exact_ops (Some 100) (Some 110)) = Some 10
     \<and> round2 exact_ops (change_pct_of exact_ops (Some 4000) (Some 4100)) = Some (5 / 2)"
proof -
  from assms have di: "distinct (map fst (market_indices cfg))"
    and ds: "distinct (map fst (sector_etfs cfg))"
    and dk: "distinct (major_stocks cfg @ sea_stocks cfg)"
    by (simp_all add: config_ok_def)
  have idx: "map_of (fst (get_market_data_by_range ops history cfg s e)) ticker =
          (case history ticker s (e + 1) of
             Inl exc \<Rightarrow> None
           | Inr hist \<Rightarrow>
               if 2 \<le> length hist
               then Some (IndexEntry
                      \<lparr> idx_name = name,
                        idx_current_price = round2 ops (last hist),
                        idx_change_pct =
                          round2 ops (fmul ops (fdiv ops (fsub ops (last hist) (hd hist)) (hd hist))
                                        (hundred ops)),
                        idx_start_price = round2 ops (hd hist) \<rparr>)
               else None)"
    if m: "map_of (market_indices cfg) ticker = Some name" for ticker name
    using group_keys_not_index [OF assms m]
    by (simp add: map_of_market_data index_loop_lookup [OF di] m observed_cases change_pct_of_def
             split: sum.splits)
  have sec: "map_of (fst (sector_loop ops history s e (sector_etfs cfg) ([], []))) ticker =
                 (case history ticker s (e + 1) of
                    Inl exc \<Rightarrow> None
                  | Inr hist \<Rightarrow>
                      if 2 \<le> length hist
                      then Some \<lparr> sec_name = name,
                                  sec_change_pct =
                                    round2 ops (fmul ops (fdiv ops (fsub ops (last hist) (hd hist)) (hd hist))
                                                  (hundred ops)) \<rparr>
                      else None)"
    if m: "map_of (sector_etfs cfg) ticker = Some name" for ticker name
    by (simp add: sector_loop_lookup [OF ds] m observed_cases change_pct_of_def split: sum.splits)
  have stk: "map_of (fst (stock_loop ops history s e (major_stocks cfg @ sea_stocks cfg) ([], []))) ticker =
                 (case history ticker s (e + 1) of
                    Inl exc \<Rightarrow> None
                  | Inr hist \<Rightarrow>
                      if 2 \<le> length hist
                      then Some \<lparr> stk_change_pct =
                                    round2 ops (fmul ops (fdiv ops (fsub ops (last hist) (hd hist)) (hd hist))
                                                  (hundred ops)),
                                  stk_current_price = round2 ops (last hist) \<rparr>
                      else None)"
    if m: "ticker \<in> set (major_stocks cfg @ sea_stocks cfg)" for ticker
    using m
    by (simp add: stock_loop_lookup [OF dk] observed_cases change_pct_of_def split: sum.splits)
  have groups: "map_of (fst (get_market_data_by_range ops history cfg s e)) ''sectors''
             = Some (SectorData (fst (sector_loop ops history s e (sector_etfs cfg) ([], []))))"
    "map_of (fst (get_market_data_by_range ops history cfg s e)) ''stocks''
             = Some (StockData (fst (stock_loop ops history s e (major_stocks cfg @ sea_stocks cfg) ([], []))))"
    by (simp_all add: map_of_market_data)
  have fix1: "round2 exact_ops (change_pct_of exact_ops (Some 100) (Some 110)) = Some 10"
    by (simp add: exact_ops_def change_pct_of_def round_half_even_def)
  have fix2: "round2 exact_ops (change_pct_of exact_ops (Some 4000) (Some 4100)) = Some (5 / 2)"
    by (simp add: exact_ops_def change_pct_of_def round_half_even_def)
  from idx sec stk groups fix1 fix2 show ?thesis by blast
qed

theorem get_market_data_by_range_change_pct_witness:
  "map_of (fst (get_market_data_by_range exact_ops example_history small_config 10 17)) ''^GSPC''
     = Some (IndexEntry \<lparr> idx_name = ''S&P 500'', idx_current_price = Some 4100,
                           idx_change_pct = Some (5 / 2), idx_start_price = Some 4000 \<rparr>)
   \<and> map_of (fst (get_market_data_by_range exact_ops example_history small_config 10 17)) ''^DJI''
     = None
   \<and> (\<exists>sectors.
         map_of (fst (get_market_data_by_range exact_ops example_history small_config 10 17)) ''sectors''
           = Some (SectorData sectors)
       \<and> map_of sectors ''XLK'' = Some \<lparr> sec_name = ''Technology'', sec_change_pct = Some 10 \<rparr>
       \<and> map_of sectors ''XLF'' = None)"
proof -
  note t = get_market_data_by_range_change_pct
             [OF config_ok_small, of exact_ops example_history 10 17]
  have m: "map_of (market_indices small_config) ''^GSPC'' = Some ''S&P 500''"
    "map_of (market_indices small_config) ''^DJI'' = Some ''Dow Jones''"
    "map_of (sector_etfs small_config) ''XLK'' = Some ''Technology''"
    "map_of (sector_etfs small_config) ''XLF'' = Some ''Financials''"
    by (simp_all add: small_config_def)
  have h: "example_history ''^GSPC'' 10 18 = Inr [Some 4000, Some 4050, Some 4100]"
    "example_history ''^DJI'' 10 18 = Inl (ServiceError ''connection reset'')"
    "example_history ''XLK'' 10 18 = Inr [Some 100, Some 110]"
    "example_history ''XLF'' 10 18 = Inr [Some 50]"
    by (simp_all add: example_history_def)
  have r: "round2 exact_ops (Some 4100) = Some 4100" "round2 exact_ops (Some 4000) = Some 4000"
    "round2 exact_ops (fmul exact_ops (fdiv exact_ops (fsub exact_ops (Some 4100) (Some 4000)) (Some 4000))
         (hundred exact_ops)) = Some (5 / 2)"
    "round2 exact_ops (fmul exact_ops (fdiv exact_ops (fsub exact_ops (Some 110) (Some 100)) (Some 100))
         (hundred exact_ops)) = Some 10"
    by (simp_all add: exact_ops_def round_half_even_def)
  note ti = t [THEN conjunct1, rule_format]
  from ti [OF m(1)] have a: "map_of (fst (get_market_data_by_range exact_ops example_history small_config 10 17)) ''^GSPC''
     = Some (IndexEntry \<lparr> idx_name = ''S&P 500'', idx_current_price = Some 4100,
                           idx_change_pct = Some (5 / 2), idx_start_price = Some 4000 \<rparr>)"
    by (simp add: h r)
  from ti [OF m(2)] have b: "map_of (fst (get_market_data_by_range exact_ops example_history small_config 10 17)) ''^DJI''
     = None"
    by (simp add: h)
  from t [THEN conjunct2, THEN conjunct1] obtain sectors where
    s: "map_of (fst (get_market_data_by_range exact_ops example_history small_config 10 17)) ''sectors''
           = Some (SectorData sectors)"
    and all: "\<forall>ticker name. map_of (sector_etfs small_config) ticker = Some name \<longrightarrow>
               map_of sectors ticker =
                 (case example_history ticker 10 (17 + 1) of
                    Inl exc \<Rightarrow> None
                  | Inr hist \<Rightarrow>
                      if 2 \<le> length hist
                      then Some \<lparr> sec_name = name,
                                  sec_change_pct =
                                    round2 exact_ops (fmul exact_ops (fdiv exact_ops (fsub exact_ops (last hist) (hd hist)) (hd hist))
                                                  (hundred exact_ops)) \<rparr>
                      else None)"
    by blast
  from all [rule_format, OF m(3)] have c: "map_of sectors ''XLK'' = Some \<lparr> sec_name = ''Technology'', sec_change_pct = Some 10 \<rparr>"
    by (simp add: h r)
  from all [rule_format, OF m(4)] have d: "map_of sectors ''XLF'' = None"
    by (simp add: h)
  from a b s c d show ?thesis by blast
qed

lemma loops_nothing:
  assumes "\<And>t. \<not> succeeded h s e t"
  shows "fst (index_loop ops h s e items ([], ev)) = []"
    and "fst (sector_loop ops h s e items ([], ev)) = []"
    and "fst (stock_loop ops h s e tickers ([], ev)) = []"
proof -
  have o: "observed ops h s e t = None" for t
    using assms [of t] observed_succeeded [of ops h s e t] by blast
  show "fst (index_loop ops h s e items ([], ev)) = []"
    unfolding index_loop_fetch by (rule fetch_loop_nothing) (simp add: o)
  show "fst (sector_loop ops h s e items ([], ev)) = []"
    unfolding sector_loop_fetch by (rule fetch_loop_nothing) (simp add: o)
  show "fst (stock_loop ops h s e tickers ([], ev)) = []"
    unfolding stock_loop_fetch by (rule fetch_loop_nothing) (simp add: o)
qed

text \<open>
  C5. For every date range, an exception raised by the fetch of an instrument, or a
  history with fewer than two observations, is a soft failure: the instrument is skipped
  and the aggregator goes on and returns its snapshot (the function has no path that
  raises). The snapshot holds exactly the instruments that succeeded, group by group,
  and the sector and the stock dictionaries are present under their keys whatever
  happens; when every instrument fails the snapshot is exactly these two, empty.
\<close>

theorem get_market_data_by_range_soft_failure:
  assumes "config_ok cfg"
  shows
    "\<exists>sectors stocks.
        map_of (fst (get_market_data_by_range ops history cfg s e)) ''sectors''
          = Some (SectorData sectors)
      \<and> map_of (fst (get_market_data_by_range ops history cfg s e)) ''stocks''
          = Some (StockData stocks)
      \<and> fst ` set (fst (get_market_data_by_range ops history cfg s e))
          = {t \<in> fst ` set (market_indices cfg).
               case history t s (e + 1) of Inl exc \<Rightarrow> False | Inr hist \<Rightarrow> 2 \<le> length hist}
            \<union> {''sectors'', ''stocks''}
      \<and> fst ` set sectors
          = {t \<in> fst ` set (sector_etfs cfg).
               case history t s (e + 1) of Inl exc \<Rightarrow> False | Inr hist \<Rightarrow> 2 \<le> length hist}
      \<and> fst ` set stocks
          = {t \<in> set (major_stocks cfg @ sea_stocks cfg).
               case history t s (e + 1) of Inl exc \<Rightarrow> False | Inr hist \<Rightarrow> 2 \<le> length hist}
      \<and> ((\<forall>t. case history t s (e + 1) of Inl exc \<Rightarrow> True | Inr hist \<Rightarrow> length hist < 2) \<longrightarrow>
           fst (get_market_data_by_range ops history cfg s e)
             = [(''sectors'', SectorData []), (''stocks'', StockData [])])"
proof -
  from assms have di: "distinct (map fst (market_indices cfg))"
    and ds: "distinct (map fst (sector_etfs cfg))"
    and dk: "distinct (major_stocks cfg @ sea_stocks cfg)"
    by (simp_all add: config_ok_def)
  let ?md = "fst (get_market_data_by_range ops history cfg s e)"
  let ?ix = "fst (index_loop ops history s e (market_indices cfg) ([], []))"
  let ?sd = "fst (sector_loop ops history s e (sector_etfs cfg) ([], []))"
  let ?sk = "fst (stock_loop ops history s e (major_stocks cfg @ sea_stocks cfg) ([], []))"
  have g1: "map_of ?md ''sectors'' = Some (SectorData ?sd)"
    and g2: "map_of ?md ''stocks'' = Some (StockData ?sk)"
    by (simp_all add: map_of_market_data)
  have "dom (map_of ?md) = dom (map_of ?ix) \<union> {''sectors'', ''stocks''}"
    unfolding map_of_market_data by auto
  then have k: "fst ` set ?md
      = {t \<in> fst ` set (market_indices cfg). succeeded history s e t} \<union> {''sectors'', ''stocks''}"
    by (simp only: dom_map_of_conv_image_fst dom_index_loop [OF di])
  have all_fail: "?md = [(''sectors'', SectorData []), (''stocks'', StockData [])]"
    if "\<forall>t. \<not> succeeded history s e t"
    unfolding get_market_data_parts using that
    by (simp add: loops_nothing)
  have n: "(\<forall>t. \<not> succeeded history s e t)
      \<longleftrightarrow> (\<forall>t. case history t s (e + 1) of Inl exc \<Rightarrow> True | Inr hist \<Rightarrow> length hist < 2)"
    by (auto simp: succeeded_def split: sum.splits) (metis not_less)+
  from g1 g2 k dom_sector_loop [OF ds, of ops history s e "[]"]
    dom_stock_loop [OF dk, of ops history s e "[]"] all_fail
  have "\<exists>sectors stocks.
        map_of ?md ''sectors'' = Some (SectorData sectors)
      \<and> map_of ?md ''stocks'' = Some (StockData stocks)
      \<and> fst ` set ?md
          = {t \<in> fst ` set (market_indices cfg). succeeded history s e t} \<union> {''sectors'', ''stocks''}
      \<and> fst ` set sectors = {t \<in> fst ` set (sector_etfs cfg). succeeded history s e t}
      \<and> fst ` set stocks
          = {t \<in> set (major_stocks cfg @ sea_stocks cfg). succeeded history s e t}
      \<and> ((\<forall>t. \<not> succeeded history s e t) \<longrightarrow>
           ?md = [(''sectors'', SectorData []), (''stocks'', StockData [])])"
    by blast
  then show ?thesis unfolding n unfolding succeeded_def .
qed

text \<open>
  The theorem at the fixture with three indices, of which \<open>^DJI\<close> raises a transport
  error: the snapshot holds exactly the other two. The sector fund with a single close and
  the stock whose fetch raises are left out, and both group dictionaries are there. With a
  provider that raises for every instrument of the default configuration the snapshot is
  the two empty groups.
\<close>

theorem get_market_data_by_range_soft_failure_witness:
  "fst ` set (fst (get_market_data_by_range exact_ops example_history small_config 10 17))
     = {''^GSPC'', ''^IXIC'', ''sectors'', ''stocks''}
   \<and> (\<exists>sectors stocks.
        map_of (fst (get_market_data_by_range exact_ops example_history small_config 10 17)) ''sectors''
          = Some (SectorData sectors)
      \<and> map_of (fst (get_market_data_by_range exact_ops example_history small_config 10 17)) ''stocks''
          = Some (StockData stocks)
      \<and> fst ` set sectors = {''XLK''}
      \<and> fst ` set stocks = {})
   \<and> fst (get_market_data_by_range exact_ops failing_history default_config 10 17)
        = [(''sectors'', SectorData []), (''stocks'', StockData [])]"
proof -
  have ok: "config_ok default_config"
    by (simp add: config_ok_def default_config_def)
  have f: "\<forall>t. case failing_history t 10 (17 + 1) of Inl exc \<Rightarrow> True | Inr hist \<Rightarrow> length hist < 2"
    by (simp add: failing_history_def)
  from get_market_data_by_range_soft_failure [OF ok, of exact_ops failing_history 10 17] f
  have a: "fst (get_market_data_by_range exact_ops failing_history default_config 10 17)
        = [(''sectors'', SectorData []), (''stocks'', StockData [])]"
    by blast
  have i: "{t \<in> fst ` set (market_indices small_config).
              case example_history t 10 (17 + 1) of Inl exc \<Rightarrow> False | Inr hist \<Rightarrow> 2 \<le> length hist}
             = {''^GSPC'', ''^IXIC''}"
    and s: "{t \<in> fst ` set (sector_etfs small_config).
              case example_history t 10 (17 + 1) of Inl exc \<Rightarrow> False | Inr hist \<Rightarrow> 2 \<le> length hist}
             = {''XLK''}"
    and k: "{t \<in> set (major_stocks small_config @ sea_stocks small_config).
              case example_history t 10 (17 + 1) of Inl exc \<Rightarrow> False | Inr hist \<Rightarrow> 2 \<le> length hist}
             = {}"
    by (auto simp: small_config_def example_history_def)
  from get_market_data_by_range_soft_failure
         [OF config_ok_small, of exact_ops example_history 10 17, unfolded i s k] a
  show ?thesis by auto
qed

subsection \<open>News summary\<close>

lemma append_entry_text:
  "append_entry i article summary = summary @ entry_text (str_nat i) article"
  by (simp add: append_entry_def entry_text_def dict_get_def Let_def split: option.splits)

lemma entry_loop_three:
  "entry_loop (Suc 0) (take 3 articles) summary =
     summary @ concat (map (\<lambda>(number, article). entry_text number article)
                         (zip [''1'', ''2'', ''3''] articles))"
proof -
  have n: "str_nat (Suc 0) = ''1''" "str_nat (Suc (Suc 0)) = ''2''"
    "str_nat (Suc (Suc (Suc 0))) = ''3''"
    by code_simp+
  show ?thesis
  proof (cases articles)
    case Nil
    then show ?thesis by simp
  next
    case (Cons a as)
    note a = this
    show ?thesis
    proof (cases as)
      case Nil
      with a show ?thesis by (simp add: append_entry_text n)
    next
      case (Cons b bs)
      note b = this
      show ?thesis
      proof (cases bs)
        case Nil
        with a b show ?thesis by (simp add: append_entry_text n)
      next
        case (Cons c cs)
        with a b show ?thesis by (simp add: append_entry_text n)
      qed
    qed
  qed
qed

lemma append_theme_section:
  "append_theme upper title theme articles summary =
     summary @ theme_section upper title theme articles"
  by (simp add: append_theme_def theme_section_def entry_loop_three dict_get_def newline_def Let_def
           split: option.splits)

lemma theme_loop_sections:
  "theme_loop upper title key_stories summary =
     summary @ concat (map (\<lambda>(theme, articles).
                              if articles = [] then [] else theme_section upper title theme articles)
                         key_stories)"
proof (induction key_stories arbitrary: summary)
  case Nil
  then show ?case by simp
next
  case (Cons ta rest)
  obtain theme articles where ta: "ta = (theme, articles)" by (cases ta)
  show ?case unfolding ta by (simp add: Cons.IH append_theme_section)
qed

lemma length_entry_text: "length (entry_text number article) = 7"
  by (simp add: entry_text_def)

lemma length_concat_entries:
  "length (concat (map (\<lambda>(number, article). entry_text number article) xs)) = 7 * length xs"
  by (induction xs) (auto simp: length_entry_text)

lemma length_theme_section:
  "length (theme_section upper title theme articles) = 1 + 7 * min 3 (length articles)"
  by (simp add: theme_section_def length_concat_entries)

lemma theme_section_take:
  "theme_section upper title theme (take 3 articles) = theme_section upper title theme articles"
proof -
  have "zip [''1'', ''2'', ''3''] (take 3 articles) = zip [''1'', ''2'', ''3''] articles"
    using take_zip [of 3 "[''1'', ''2'', ''3'']" articles] by simp
  then show ?thesis by (simp only: theme_section_def)
qed

text \<open>
  C10. For every key-story dictionary and every theme, the rendered news summary holds the
  entries of at most three articles of the theme: the summary is the sections of the
  themes that have articles, joined by newlines; a section is a header line and seven
  lines for each of the first three articles, so it has at most 22 lines; and the articles
  behind the third change nothing, the summary being the same as for the dictionary with
  every sequence cut to its first three articles.
\<close>

theorem create_news_summary_at_most_three:
  "create_news_summary_with_sources upper title key_stories =
     join [CHR 0x0A]
       (concat (map (\<lambda>(theme, articles).
                       if articles = [] then [] else theme_section upper title theme articles)
                  key_stories))
   \<and> length (theme_section upper title theme articles) = 1 + 7 * min 3 (length articles)
   \<and> theme_section upper title theme articles
       = theme_section upper title theme (take 3 articles)
   \<and> create_news_summary_with_sources upper title key_stories
       = create_news_summary_with_sources upper title
           (map (\<lambda>(theme, articles). (theme, take 3 articles)) key_stories)"
proof -
  have t: "(\<lambda>(theme, articles). if articles = [] then [] else theme_section upper title theme articles)
             \<circ> (\<lambda>(theme, articles). (theme, take 3 articles))
         = (\<lambda>(theme, articles). if articles = [] then [] else theme_section upper title theme articles)"
    by (auto simp: fun_eq_iff theme_section_take)
  show ?thesis
    unfolding create_news_summary_with_sources_def theme_loop_sections
    by (simp add: length_theme_section theme_section_take newline_def t)
qed

theorem create_news_summary_at_most_three_witness:
  "length (theme_section ascii_upper ascii_title ''crypto'' four_articles) = 22
   \<and> create_news_summary_with_sources ascii_upper ascii_title [(''crypto'', four_articles)]
       = create_news_summary_with_sources ascii_upper ascii_title
           [(''crypto'', [plain_article, apple_article, quiet_article])]
   \<and> \<not> sublist ''Tesla'' (create_news_summary_with_sources ascii_upper ascii_title
                              [(''crypto'', four_articles)])"
proof -
  have l: "length four_articles = 4"
    and t: "take 3 four_articles = [plain_article, apple_article, quiet_article]"
    by (simp_all add: four_articles_def)
  have n: "\<not> py_in ''Tesla'' (create_news_summary_with_sources ascii_upper ascii_title
                              [(''crypto'', [plain_article, apple_article, quiet_article])])"
    by code_simp
  note th = create_news_summary_at_most_three
         [of ascii_upper ascii_title "[(''crypto'', four_articles)]" "''crypto''" four_articles]
  from th have "length (theme_section ascii_upper ascii_title ''crypto'' four_articles)
      = 1 + 7 * min 3 (length four_articles)"
    by blast
  then have a: "length (theme_section ascii_upper ascii_title ''crypto'' four_articles) = 22"
    unfolding l by simp
  from th have "create_news_summary_with_sources ascii_upper ascii_title [(''crypto'', four_articles)]
       = create_news_summary_with_sources ascii_upper ascii_title
           (map (\<lambda>(theme, articles). (theme, take 3 articles)) [(''crypto'', four_articles)])"
    by blast
  then have b: "create_news_summary_with_sources ascii_upper ascii_title [(''crypto'', four_articles)]
       = create_news_summary_with_sources ascii_upper ascii_title
           [(''crypto'', [plain_article, apple_article, quiet_article])]"
    by (simp add: t)
  from n have c: "\<not> sublist ''Tesla'' (create_news_summary_with_sources ascii_upper ascii_title
                              [(''crypto'', four_articles)])"
    unfolding b py_in_sublist .
  from a b c show ?thesis by blast
qed

text \<open>
  C7, as the code has it. Whenever the language-generation service fails during report
  synthesis, the report builder shows an error message and returns the fixed text
  "Error generating market report" to its caller as an ordinary string; it issues the
  request once and does not retry. When the service answers, the builder returns the
  answer, stripped, after the same single request.
\<close>

theorem generate_market_report_failure:
  "(llm (report_request (long_date r s @ '' to '' @ long_date r e)
           (performance_summary_of r market_data s e)
           (create_news_summary_with_sources (str_upper r) (str_title r) key_stories)) = Inl exc
     \<longrightarrow> generate_market_report llm r market_data key_stories s e =
           (''Error generating market report'',
            [ChatCompletion
               (report_request (long_date r s @ '' to '' @ long_date r e)
                  (performance_summary_of r market_data s e)
                  (create_news_summary_with_sources (str_upper r) (str_title r) key_stories)),
             StError ''OpenAI API error: '' exc]))
   \<and> (llm (report_request (long_date r s @ '' to '' @ long_date r e)
           (performance_summary_of r market_data s e)
           (create_news_summary_with_sources (str_upper r) (str_title r) key_stories)) = Inr txt
     \<longrightarrow> generate_market_report llm r market_data key_stories s e =
           (py_strip txt,
            [ChatCompletion
               (report_request (long_date r s @ '' to '' @ long_date r e)
                  (performance_summary_of r market_data s e)
                  (create_news_summary_with_sources (str_upper r) (str_title r) key_stories))]))
   \<and> model_name (report_request d p n) = ''gpt-4o''
   \<and> max_tokens (report_request d p n) = 2500
   \<and> temperature (report_request d p n) = 7 / 10"
  by (simp add: generate_market_report_def report_request_def Let_def)

theorem generate_market_report_failure_witness:
  "generate_market_report failing_llm example_renderer [] [] 10 17 =
     (''Error generating market report'',
      [ChatCompletion (report_request ''day 10 to day 17'' ''MARKET PERFORMANCE'' []),
       StError ''OpenAI API error: '' (ServiceError ''timed out'')])"
proof -
  have d: "long_date example_renderer 10 @ '' to '' @ long_date example_renderer 17 = ''day 10 to day 17''"
    by code_simp
  have p: "performance_summary_of example_renderer ([] :: rat option market_data) 10 17
             = ''MARKET PERFORMANCE''"
    by (simp add: example_renderer_def)
  have n: "create_news_summary_with_sources (str_upper example_renderer) (str_title example_renderer) [] = []"
    by (simp add: create_news_summary_with_sources_def)
  have f: "failing_llm (report_request ''day 10 to day 17'' ''MARKET PERFORMANCE'' [])
             = Inl (ServiceError ''timed out'')"
    by (simp add: failing_llm_def)
  from generate_market_report_failure
         [of failing_llm example_renderer 10 17 "[]" "[]" "ServiceError ''timed out''",
          unfolded d p n, THEN conjunct1] f
  show ?thesis by blast
qed

text \<open>
  The specification has the failure surfaced as an error outcome, distinct from a report
  text. The builder returns the same value as when the service answers with that text,
  and the pipeline goes on and stores it as the report.
\<close>

theorem generate_market_report_failure_counterexample:
  "fst (generate_market_report failing_llm example_renderer [] [] 10 17)
     = ''Error generating market report''
   \<and> fst (generate_market_report (echo_llm ''Error generating market report'') example_renderer [] [] 10 17)
     = ''Error generating market report''
   \<and> (case fst (main (example_services example_news failing_llm) (example_inputs 10 17)) of
         ReportStored rd \<Rightarrow> rd_content rd = ''Error generating market report''
       | DateError \<Rightarrow> False | NotRequested \<Rightarrow> False | NoArticles \<Rightarrow> False)"
proof -
  have a: "fst (generate_market_report failing_llm example_renderer [] [] 10 17)
     = ''Error generating market report''"
    by (simp add: generate_market_report_def failing_llm_def Let_def)
  have b: "fst (generate_market_report (echo_llm ''Error generating market report'') example_renderer [] [] 10 17)
     = ''Error generating market report''"
    by code_simp
  have c: "(case fst (main (example_services example_news failing_llm) (example_inputs 10 17)) of
         ReportStored rd \<Rightarrow> rd_content rd = ''Error generating market report''
       | DateError \<Rightarrow> False | NotRequested \<Rightarrow> False | NoArticles \<Rightarrow> False)"
    by code_simp
  from a b c show ?thesis by blast
qed
subsection \<open>The pipeline's requests\<close>

lemma fetch_loop_calls:
  "snd (fetch_loop ops h s e key entry items (d, ev)) =
     ev @ map (\<lambda>item. HistoryCall (key item) s (e + 1)) items"
proof (induction items arbitrary: d ev)
  case Nil
  then show ?case by simp
next
  case (Cons item rest)
  show ?case
  proof (cases "h (key item) s (e + 1)")
    case (Inl exc)
    then show ?thesis by (simp add: Cons.IH)
  next
    case (Inr hist)
    then show ?thesis by (cases "price_change ops hist") (simp_all add: Cons.IH)
  qed
qed

lemma get_market_data_calls:
  "snd (get_market_data_by_range ops h cfg s e) =
     map (\<lambda>t. HistoryCall t s (e + 1))
       (map fst (market_indices cfg) @ map fst (sector_etfs cfg)
          @ major_stocks cfg @ sea_stocks cfg)"
  unfolding get_market_data_by_range_def Let_def case_prod_unfold snd_conv
    index_loop_fetch sector_loop_fetch stock_loop_fetch fetch_loop_calls
  by simp

lemma get_articles_cases:
  "get_articles_by_date_range news benzinga_key s e =
     (case news ''/v2/news''
             [(''pageSize'', PInt 200), (''displayOutput'', PStr ''full''),
              (''dateFrom'', PDate s), (''dateTo'', PDate e), (''token'', PStr benzinga_key)] of
        Inr (JsonList result) \<Rightarrow>
          (result,
           [NewsRequest ''/v2/news''
              [(''pageSize'', PInt 200), (''displayOutput'', PStr ''full''),
               (''dateFrom'', PDate s), (''dateTo'', PDate e), (''token'', PStr benzinga_key)]])
      | Inr JsonOther \<Rightarrow>
          ([],
           [NewsRequest ''/v2/news''
              [(''pageSize'', PInt 200), (''displayOutput'', PStr ''full''),
               (''dateFrom'', PDate s), (''dateTo'', PDate e), (''token'', PStr benzinga_key)]])
      | Inl exc \<Rightarrow>
          ([],
           [NewsRequest ''/v2/news''
              [(''pageSize'', PInt 200), (''displayOutput'', PStr ''full''),
               (''dateFrom'', PDate s), (''dateTo'', PDate e), (''token'', PStr benzinga_key)],
            StError ''Benzinga API error: '' exc]))"
  by (simp add: get_articles_by_date_range_def make_benzinga_request_def Let_def
           split: sum.splits json_result.splits)

lemma main_no_articles:
  assumes "input_start_date inp < input_end_date inp" and "input_generate_button inp"
    and "fst (get_articles_by_date_range (sv_news sv) (sv_benzinga_key sv)
                (input_start_date inp) (input_end_date inp)) = []"
  shows "main sv inp =
           (NoArticles,
            snd (get_market_data_by_range (sv_ops sv) (sv_history sv) (sv_config sv)
                   (input_start_date inp) (input_end_date inp))
            @ snd (get_articles_by_date_range (sv_news sv) (sv_benzinga_key sv)
                     (input_start_date inp) (input_end_date inp))
            @ [NoArticlesBox])"
  using assms by (simp add: main_def Let_def case_prod_unfold)

lemma main_report_stored:
  assumes "input_start_date inp < input_end_date inp" and "input_generate_button inp"
    and "fst (get_articles_by_date_range (sv_news sv) (sv_benzinga_key sv)
                (input_start_date inp) (input_end_date inp)) \<noteq> []"
  shows "\<exists>rd. fst (main sv inp) = ReportStored rd"
  using assms by (simp add: main_def Let_def case_prod_unfold)

text \<open>
  C8, as the code has it. A transport or parsing error raised by the bulk news fetch is
  caught in the fetch: it shows an error message and returns the empty list, the value it
  also returns when the provider has no news in the window (or answers with something that
  is not a list). The pipeline receives an empty list in each of these cases and halts
  with the "no articles" outcome, after the price requests and the one news request and
  before any request for a report. When the provider returns at least one article the
  pipeline goes on and stores a report.
\<close>

theorem news_fetch_error_and_empty_result:
  "let endpoint = ''/v2/news'';
       query = [(''pageSize'', PInt 200), (''displayOutput'', PStr ''full''),
                (''dateFrom'', PDate (input_start_date inp)),
                (''dateTo'', PDate (input_end_date inp)),
                (''token'', PStr (sv_benzinga_key sv))];
       prices = map (\<lambda>t. HistoryCall t (input_start_date inp) (input_end_date inp + 1))
                  (map fst (market_indices (sv_config sv)) @ map fst (sector_etfs (sv_config sv))
                     @ major_stocks (sv_config sv) @ sea_stocks (sv_config sv));
       requested = (input_start_date inp < input_end_date inp \<and> input_generate_button inp)
   in (\<forall>exc. sv_news sv endpoint query = Inl exc \<longrightarrow>
          get_articles_by_date_range (sv_news sv) (sv_benzinga_key sv)
              (input_start_date inp) (input_end_date inp)
            = ([], [NewsRequest endpoint query, StError ''Benzinga API error: '' exc])
          \<and> (requested \<longrightarrow>
                main sv inp =
                  (NoArticles,
                   prices @ [NewsRequest endpoint query, StError ''Benzinga API error: '' exc,
                             NoArticlesBox])))
    \<and> (sv_news sv endpoint query = Inr (JsonList []) \<or> sv_news sv endpoint query = Inr JsonOther \<longrightarrow>
          get_articles_by_date_range (sv_news sv) (sv_benzinga_key sv)
              (input_start_date inp) (input_end_date inp)
            = ([], [NewsRequest endpoint query])
          \<and> (requested \<longrightarrow>
                main sv inp = (NoArticles, prices @ [NewsRequest endpoint query, NoArticlesBox])))
    \<and> (\<forall>a rest. sv_news sv endpoint query = Inr (JsonList (a # rest)) \<and> requested \<longrightarrow>
          (\<exists>rd. fst (main sv inp) = ReportStored rd))"
proof -
  let ?query = "[(''pageSize'', PInt 200), (''displayOutput'', PStr ''full''),
                (''dateFrom'', PDate (input_start_date inp)),
                (''dateTo'', PDate (input_end_date inp)),
                (''token'', PStr (sv_benzinga_key sv))]"
  let ?prices = "map (\<lambda>t. HistoryCall t (input_start_date inp) (input_end_date inp + 1))
                  (map fst (market_indices (sv_config sv)) @ map fst (sector_etfs (sv_config sv))
                     @ major_stocks (sv_config sv) @ sea_stocks (sv_config sv))"
  let ?articles = "get_articles_by_date_range (sv_news sv) (sv_benzinga_key sv)
              (input_start_date inp) (input_end_date inp)"
  let ?requested = "input_start_date inp < input_end_date inp \<and> input_generate_button inp"
  have failed: "?articles = ([], [NewsRequest ''/v2/news'' ?query, StError ''Benzinga API error: '' exc])"
    if "sv_news sv ''/v2/news'' ?query = Inl exc" for exc
    using that by (simp add: get_articles_cases)
  have empty: "?articles = ([], [NewsRequest ''/v2/news'' ?query])"
    if "sv_news sv ''/v2/news'' ?query = Inr (JsonList []) \<or> sv_news sv ''/v2/news'' ?query = Inr JsonOther"
    using that by (auto simp add: get_articles_cases)
  have some: "fst ?articles \<noteq> []"
    if "sv_news sv ''/v2/news'' ?query = Inr (JsonList (a # rest))" for a rest
    using that by (simp add: get_articles_cases)
  have halt: "main sv inp = (NoArticles, ?prices @ events @ [NoArticlesBox])"
    if "?articles = ([], events)" and "?requested" for events
    using that main_no_articles [of inp sv] by (simp add: get_market_data_calls)
  have a: "\<forall>exc. sv_news sv ''/v2/news'' ?query = Inl exc \<longrightarrow>
          ?articles = ([], [NewsRequest ''/v2/news'' ?query, StError ''Benzinga API error: '' exc])
          \<and> (?requested \<longrightarrow>
                main sv inp =
                  (NoArticles,
                   ?prices @ [NewsRequest ''/v2/news'' ?query, StError ''Benzinga API error: '' exc,
                             NoArticlesBox]))"
    using failed halt by fastforce
  have b: "sv_news sv ''/v2/news'' ?query = Inr (JsonList []) \<or> sv_news sv ''/v2/news'' ?query = Inr JsonOther \<longrightarrow>
          ?articles = ([], [NewsRequest ''/v2/news'' ?query])
          \<and> (?requested \<longrightarrow>
                main sv inp = (NoArticles, ?prices @ [NewsRequest ''/v2/news'' ?query, NoArticlesBox]))"
    using empty halt by fastforce
  have c: "\<forall>a rest. sv_news sv ''/v2/news'' ?query = Inr (JsonList (a # rest)) \<and> ?requested \<longrightarrow>
          (\<exists>rd. fst (main sv inp) = ReportStored rd)"
    using some main_report_stored [of inp sv] by blast
  from a b c show ?thesis unfolding Let_def by blast
qed

theorem news_fetch_error_and_empty_result_witness:
  "main (example_services failing_news failing_llm) (example_inputs 10 17) =
     (NoArticles,
      [HistoryCall ''^GSPC'' 10 18, HistoryCall ''^DJI'' 10 18, HistoryCall ''^IXIC'' 10 18,
       HistoryCall ''XLK'' 10 18, HistoryCall ''XLF'' 10 18, HistoryCall ''AAPL'' 10 18,
       NewsRequest ''/v2/news''
         [(''pageSize'', PInt 200), (''displayOutput'', PStr ''full''),
          (''dateFrom'', PDate 10), (''dateTo'', PDate 17), (''token'', PStr ''key'')],
       StError ''Benzinga API error: '' (ServiceError ''connection refused''),
       NoArticlesBox])
   \<and> main (example_services empty_news failing_llm) (example_inputs 10 17) =
     (NoArticles,
      [HistoryCall ''^GSPC'' 10 18, HistoryCall ''^DJI'' 10 18, HistoryCall ''^IXIC'' 10 18,
       HistoryCall ''XLK'' 10 18, HistoryCall ''XLF'' 10 18, HistoryCall ''AAPL'' 10 18,
       NewsRequest ''/v2/news''
         [(''pageSize'', PInt 200), (''displayOutput'', PStr ''full''),
          (''dateFrom'', PDate 10), (''dateTo'', PDate 17), (''token'', PStr ''key'')],
       NoArticlesBox])"
proof -
  let ?inp = "example_inputs 10 17"
  let ?down = "example_services failing_news failing_llm"
  let ?quiet = "example_services empty_news failing_llm"
  have requested: "input_start_date ?inp < input_end_date ?inp \<and> input_generate_button ?inp"
    by (simp add: example_inputs_def)
  have down: "sv_news ?down ''/v2/news''
                [(''pageSize'', PInt 200), (''displayOutput'', PStr ''full''),
                 (''dateFrom'', PDate (input_start_date ?inp)),
                 (''dateTo'', PDate (input_end_date ?inp)),
                 (''token'', PStr (sv_benzinga_key ?down))]
              = Inl (ServiceError ''connection refused'')"
    by (simp add: example_services_def failing_news_def)
  have quiet: "sv_news ?quiet ''/v2/news''
                [(''pageSize'', PInt 200), (''displayOutput'', PStr ''full''),
                 (''dateFrom'', PDate (input_start_date ?inp)),
                 (''dateTo'', PDate (input_end_date ?inp)),
                 (''token'', PStr (sv_benzinga_key ?quiet))]
              = Inr (JsonList [])
            \<or> sv_news ?quiet ''/v2/news''
                [(''pageSize'', PInt 200), (''displayOutput'', PStr ''full''),
                 (''dateFrom'', PDate (input_start_date ?inp)),
                 (''dateTo'', PDate (input_end_date ?inp)),
                 (''token'', PStr (sv_benzinga_key ?quiet))]
              = Inr JsonOther"
    by (simp add: example_services_def empty_news_def)
  have a: "main ?down ?inp =
     (NoArticles,
      [HistoryCall ''^GSPC'' 10 18, HistoryCall ''^DJI'' 10 18, HistoryCall ''^IXIC'' 10 18,
       HistoryCall ''XLK'' 10 18, HistoryCall ''XLF'' 10 18, HistoryCall ''AAPL'' 10 18,
       NewsRequest ''/v2/news''
         [(''pageSize'', PInt 200), (''displayOutput'', PStr ''full''),
          (''dateFrom'', PDate 10), (''dateTo'', PDate 17), (''token'', PStr ''key'')],
       StError ''Benzinga API error: '' (ServiceError ''connection refused''),
       NoArticlesBox])"
    using news_fetch_error_and_empty_result
            [of ?inp ?down, unfolded Let_def, THEN conjunct1, rule_format, OF down,
             THEN conjunct2, rule_format, OF requested]
    by (simp add: example_inputs_def example_services_def small_config_def)
  have b: "main ?quiet ?inp =
     (NoArticles,
      [HistoryCall ''^GSPC'' 10 18, HistoryCall ''^DJI'' 10 18, HistoryCall ''^IXIC'' 10 18,
       HistoryCall ''XLK'' 10 18, HistoryCall ''XLF'' 10 18, HistoryCall ''AAPL'' 10 18,
       NewsRequest ''/v2/news''
         [(''pageSize'', PInt 200), (''displayOutput'', PStr ''full''),
          (''dateFrom'', PDate 10), (''dateTo'', PDate 17), (''token'', PStr ''key'')],
       NoArticlesBox])"
    using news_fetch_error_and_empty_result
            [of ?inp ?quiet, unfolded Let_def, THEN conjunct2, THEN conjunct1, rule_format,
             OF quiet, THEN conjunct2, rule_format, OF requested]
    by (simp add: example_inputs_def example_services_def small_config_def)
  from a b show ?thesis by blast
qed

text \<open>
  The specification has the error of the bulk news fetch surfaced to the caller as an
  outcome distinct from an empty news result. With the provider down the fetch returns
  what it returns when the provider has no news, and the pipeline ends the same way; only
  the message the fetch shows on the way differs.
\<close>

theorem news_fetch_error_counterexample:
  "fst (get_articles_by_date_range failing_news ''key'' 10 17) = []
   \<and> fst (get_articles_by_date_range empty_news ''key'' 10 17) = []
   \<and> fst (main (example_services failing_news failing_llm) (example_inputs 10 17)) = NoArticles
   \<and> fst (main (example_services empty_news failing_llm) (example_inputs 10 17)) = NoArticles"
proof -
  have a: "fst (get_articles_by_date_range failing_news ''key'' 10 17) = []"
    by (simp add: get_articles_by_date_range_def make_benzinga_request_def failing_news_def)
  have b: "fst (get_articles_by_date_range empty_news ''key'' 10 17) = []"
    by (simp add: get_articles_by_date_range_def make_benzinga_request_def empty_news_def)
  have r: "input_start_date (example_inputs 10 17) < input_end_date (example_inputs 10 17)"
          "input_generate_button (example_inputs 10 17)"
    by (simp_all add: example_inputs_def)
  have c: "fst (main (example_services failing_news failing_llm) (example_inputs 10 17)) = NoArticles"
    using r a main_no_articles [of "example_inputs 10 17" "example_services failing_news failing_llm"]
    by (simp add: example_services_def example_inputs_def)
  have d: "fst (main (example_services empty_news failing_llm) (example_inputs 10 17)) = NoArticles"
    using r b main_no_articles [of "example_inputs 10 17" "example_services empty_news failing_llm"]
    by (simp add: example_services_def example_inputs_def)
  from a b c d show ?thesis by blast
qed

text \<open>
  C6, as the code has it. For every date range where the start date is not strictly before
  the end date, the pipeline shows the date error and returns at once: no price, news or
  report request is made. For start < end the pipeline never ends with the date error. The
  check is the pipeline's: the market-performance aggregation itself accepts every range,
  requests the history of each configured instrument once, and returns a snapshot.
\<close>

theorem main_date_validation:
  "(input_end_date inp \<le> input_start_date inp \<longrightarrow> main sv inp = (DateError, [DateErrorBox]))
   \<and> (input_start_date inp < input_end_date inp \<longrightarrow>
         fst (main sv inp) \<noteq> DateError \<and> DateErrorBox \<notin> set (snd (main sv inp)))
   \<and> snd (get_market_data_by_range ops history cfg s e) =
         map (\<lambda>t. HistoryCall t s (e + 1))
           (map fst (market_indices cfg) @ map fst (sector_etfs cfg)
              @ major_stocks cfg @ sea_stocks cfg)"
proof -
  have a: "input_end_date inp \<le> input_start_date inp \<longrightarrow> main sv inp = (DateError, [DateErrorBox])"
    by (simp add: main_def)
  have b1: "input_start_date inp < input_end_date inp \<longrightarrow> fst (main sv inp) \<noteq> DateError"
    by (simp add: main_def Let_def case_prod_unfold)
  have g: "DateErrorBox \<notin> set (snd (generate_market_report llm r md ks s' e'))" for llm r md ks s' e'
    by (simp add: generate_market_report_def Let_def split: sum.splits)
  have t: "DateErrorBox \<notin> set (snd (translate_content llm c l))" for llm c l
    by (simp add: translate_content_def Let_def split: sum.splits option.splits)
  have n: "DateErrorBox \<notin> set (snd (get_articles_by_date_range news k s' e'))" for news k s' e'
    by (simp add: get_articles_cases split: sum.splits json_result.splits)
  have m: "DateErrorBox \<notin> set (snd (get_market_data_by_range ops' h' cfg' s' e'))" for ops' :: "'a float_ops" and h' cfg' s' e'
    by (auto simp add: get_market_data_calls)
  have b2: "input_start_date inp < input_end_date inp \<longrightarrow> DateErrorBox \<notin> set (snd (main sv inp))"
    by (simp add: main_def Let_def case_prod_unfold g t n m)
  from a b1 b2 get_market_data_calls [of ops history cfg s e] show ?thesis by blast
qed


theorem main_date_validation_witness:
  "main (example_services example_news failing_llm) (example_inputs 17 17)
     = (DateError, [DateErrorBox])
   \<and> main (example_services example_news failing_llm) (example_inputs 17 10)
     = (DateError, [DateErrorBox])
   \<and> fst (main (example_services example_news failing_llm) (example_inputs 10 17)) \<noteq> DateError"
proof -
  have same: "input_end_date (example_inputs 17 17) \<le> input_start_date (example_inputs 17 17)"
    by (simp add: example_inputs_def)
  have reversed: "input_end_date (example_inputs 17 10) \<le> input_start_date (example_inputs 17 10)"
    by (simp add: example_inputs_def)
  have forward: "input_start_date (example_inputs 10 17) < input_end_date (example_inputs 10 17)"
    by (simp add: example_inputs_def)
  note a = main_date_validation
             [of "example_inputs 17 17" "example_services example_news failing_llm"
                 exact_ops example_history small_config 17 17,
              THEN conjunct1, rule_format, OF same]
  note b = main_date_validation
             [of "example_inputs 17 10" "example_services example_news failing_llm"
                 exact_ops example_history small_config 17 10,
              THEN conjunct1, rule_format, OF reversed]
  note c = main_date_validation
             [of "example_inputs 10 17" "example_services example_news failing_llm"
                 exact_ops example_history small_config 10 17,
              THEN conjunct2, THEN conjunct1, rule_format, OF forward, THEN conjunct1]
  from a b c show ?thesis by blast
qed

text \<open>
  The specification has the market-performance aggregation fail with an error when the
  start date is not strictly before the end date, with no pipeline work done. Called with
  start = end, the aggregation requests the history of all six instruments and returns a
  snapshot (empty here, the provider having one close for the day); called with the dates
  reversed it does the same.
\<close>

theorem get_market_data_by_range_no_validation_counterexample:
  "get_market_data_by_range exact_ops single_close_history small_config 17 17 =
     ([(''sectors'', SectorData []), (''stocks'', StockData [])],
      [HistoryCall ''^GSPC'' 17 18, HistoryCall ''^DJI'' 17 18, HistoryCall ''^IXIC'' 17 18,
       HistoryCall ''XLK'' 17 18, HistoryCall ''XLF'' 17 18, HistoryCall ''AAPL'' 17 18])
   \<and> get_market_data_by_range exact_ops single_close_history small_config 17 10 =
     ([(''sectors'', SectorData []), (''stocks'', StockData [])],
      [HistoryCall ''^GSPC'' 17 11, HistoryCall ''^DJI'' 17 11, HistoryCall ''^IXIC'' 17 11,
       HistoryCall ''XLK'' 17 11, HistoryCall ''XLF'' 17 11, HistoryCall ''AAPL'' 17 11])"
  by (simp add: get_market_data_by_range_def small_config_def single_close_history_def
        price_change_def Let_def)

subsection \<open>Translator\<close>

text \<open>
  C9. For every report text, the translator returns the text unchanged and issues no request
  to the language-generation service when the target language is the base language
  (English). For any other target language, when the translation request fails the
  translator returns the original, untranslated text: no exception reaches the caller, and
  the failure is only shown as a message. (A target language outside the language table
  fails before any request is issued, with the same result.)
\<close>

theorem translate_content_base_and_fallback:
  "translate_content llm content ''English'' = (content, [])
   \<and> (target \<noteq> ''English'' \<longrightarrow> map_of language_map target = Some lang \<longrightarrow>
        llm (translation_request lang content) = Inl e \<longrightarrow>
          translate_content llm content target
            = (content, [ChatCompletion (translation_request lang content),
                         StError ''Translation error: '' e]))
   \<and> (target \<noteq> ''English'' \<longrightarrow> map_of language_map target = None \<longrightarrow>
          translate_content llm content target
            = (content, [StError ''Translation error: '' (KeyError target)]))"
  by (simp add: translate_content_def)

theorem translate_content_base_and_fallback_witness:
  "translate_content (\<lambda>r. Inl (ServiceError ''timed out'')) ''Stocks rose.'' ''English''
     = (''Stocks rose.'', [])
   \<and> translate_content (\<lambda>r. Inl (ServiceError ''timed out'')) ''Stocks rose.'' ''Thai''
     = (''Stocks rose.'', [ChatCompletion (translation_request ''Thai'' ''Stocks rose.''),
                          StError ''Translation error: '' (ServiceError ''timed out'')])
   \<and> translate_content (\<lambda>r. Inl (ServiceError ''timed out'')) ''Stocks rose.'' ''Klingon''
     = (''Stocks rose.'', [StError ''Translation error: '' (KeyError ''Klingon'')])"
proof -
  have t: "''Thai'' \<noteq> ''English''" and k: "''Klingon'' \<noteq> ''English''" by simp_all
  have m: "map_of language_map ''Thai'' = Some ''Thai''"
    and n: "map_of language_map ''Klingon'' = None"
    by (simp_all add: language_map_def)
  note a = translate_content_base_and_fallback
    [of "\<lambda>r. Inl (ServiceError ''timed out'')" "''Stocks rose.''" "''Thai''" "''Thai''"
        "ServiceError ''timed out''"]
  note b = translate_content_base_and_fallback
    [of "\<lambda>r. Inl (ServiceError ''timed out'')" "''Stocks rose.''" "''Klingon''" "''Thai''"
        "ServiceError ''timed out''"]
  from a t m b k n show ?thesis by simp
qed

end
